theory Spec2Isabelle
  imports Main "HOL-Library.Word"
begin

section \<open>Bytes, slices and 256-bit integers\<close>

text \<open>
  Go's \<open>[]byte\<close> is a list of 8-bit words, Go's \<open>string\<close> a list of 8-bit characters,
  \<open>uint256.Int\<close> a 256-bit word (\<open>Add\<close> and \<open>Sub\<close> wrap around), Go's \<open>uint\<close> a 64-bit word.
  A \<open>[]byte\<close> that may be \<open>nil\<close> is a \<open>byte list option\<close>, \<open>None\<close> being \<open>nil\<close>.
\<close>

type_synonym byte = "8 word"
type_synonym u256 = "256 word"

datatype error =
    KeyLengthPanic
  | ValueLengthPanic
  | MaxLengthPanic
  | IndexPanic
  | SliceBoundsPanic
  | TickLengthPanic
  | HashLengthPanic
  | GetterError

text \<open>The constants of go-verkle that the store uses, and the slot size of the store.\<close>

definition KeySize :: nat where "KeySize = 32"
definition StemSize :: nat where "StemSize = 31"
definition NodeWidth :: nat where "NodeWidth = 256"
definition ValueSize :: nat where "ValueSize = 32"

text \<open>\<open>copy(dst[:], src)\<close> into a zeroed array of \<open>n\<close> bytes.\<close>

definition copyInto :: "nat \<Rightarrow> byte list \<Rightarrow> byte list" where
  "copyInto n src = take n src @ replicate (n - length src) 0"

text \<open>\<open>len\<close> of a slice that may be \<open>nil\<close>, and its bytes.\<close>

definition len :: "byte list option \<Rightarrow> nat" where
  "len v = (case v of None \<Rightarrow> 0 | Some bs \<Rightarrow> length bs)"

definition bytesOf :: "byte list option \<Rightarrow> byte list" where
  "bytesOf v = (case v of None \<Rightarrow> [] | Some bs \<Rightarrow> bs)"

text \<open>
  A Go slice with its capacity: \<open>elems\<close> are the \<open>len\<close> bytes of the slice, \<open>spare\<close> the bytes
  of the backing array between \<open>len\<close> and \<open>cap\<close>. The slice expression \<open>s[a:b]\<close> may reach
  into the spare bytes and panics beyond the capacity.
\<close>

record goslice =
  elems :: "byte list"
  spare :: "byte list"

definition sliceOf :: "goslice \<Rightarrow> nat \<Rightarrow> nat \<Rightarrow> error + byte list" where
  "sliceOf s a b =
     (if a \<le> b \<and> b \<le> length (elems s) + length (spare s)
      then Inr (take (b - a) (drop a (elems s @ spare s)))
      else Inl SliceBoundsPanic)"

text \<open>Big-endian bytes: \<open>WriteToArray32\<close> writes 32 of them, \<open>SetBytes\<close> reads any number
  (the value modulo \<open>2 ^ 256\<close>, that is the last 32 bytes).\<close>

fun intToBE :: "nat \<Rightarrow> int \<Rightarrow> byte list" where
  "intToBE 0 v = []"
| "intToBE (Suc n) v = intToBE n (v div 256) @ [word_of_int (v mod 256)]"

definition BEToInt :: "byte list \<Rightarrow> int" where
  "BEToInt bs = foldl (\<lambda>a b. a * 256 + uint b) 0 bs"

definition WriteToArray32 :: "u256 \<Rightarrow> byte list" where
  "WriteToArray32 v = intToBE 32 (uint v)"

definition SetBytes :: "byte list \<Rightarrow> u256" where
  "SetBytes bs = word_of_int (BEToInt bs)"

definition Uint64 :: "u256 \<Rightarrow> 64 word" where
  "Uint64 v = ucast v"

section \<open>The committed key-value store (ord/stateless/header.go)\<close>

record TripleElement =
  Key :: "byte list"
  OldValue :: "byte list"
  NewValue :: "byte list"
  OldValueExists :: bool

text \<open>
  The Verkle tree \<open>Root\<close> is an opaque authenticated map from keys to values; its \<open>Get\<close>
  yields \<open>nil\<close> for an absent key and is taken not to fail. \<open>Temp\<close> holds the elements of
  the \<open>DiffList\<close>.
\<close>

record Header =
  Root :: "byte list \<rightharpoonup> byte list"
  KV :: "byte list \<rightharpoonup> byte list"
  Temp :: "TripleElement list"
  Height :: "64 word"
  Hash :: string

definition get :: "Header \<Rightarrow> byte list \<Rightarrow> error + byte list option" where
  "get h key =
     (if length key \<noteq> KeySize then Inl KeyLengthPanic
      else Inr (Root h key))"

definition insert_h :: "Header \<Rightarrow> byte list \<Rightarrow> byte list \<Rightarrow> error + Header" where
  "insert_h h key val =
     (if length key \<noteq> KeySize then Inl KeyLengthPanic
      else case get h key of
        Inl e \<Rightarrow> Inl e
      | Inr oldValue \<Rightarrow>
          (let keyArray = copyInto KeySize key;
               oldValueArray = (if len oldValue > 0 then copyInto ValueSize (bytesOf oldValue)
                                else replicate ValueSize 0);
               newValueArray = (if length val > 0 then copyInto ValueSize val
                                else replicate ValueSize 0);
               oldExists = (oldValue \<noteq> None)
           in if length val \<noteq> ValueSize then Inl ValueLengthPanic
              else Inr (h\<lparr>Temp := Temp h @
                     [\<lparr>Key = keyArray, OldValue = oldValueArray,
                       NewValue = newValueArray, OldValueExists = oldExists\<rparr>]\<rparr>)))"

definition InsertUInt256 :: "Header \<Rightarrow> byte list \<Rightarrow> u256 \<Rightarrow> error + Header" where
  "InsertUInt256 h key v = insert_h h key (WriteToArray32 v)"

definition GetUInt256 :: "Header \<Rightarrow> byte list \<Rightarrow> error + u256" where
  "GetUInt256 h key =
     (case get h key of
        Inl e \<Rightarrow> Inl e
      | Inr v \<Rightarrow> if len v = 0 then Inr 0 else Inr (SetBytes (bytesOf v)))"

text \<open>The loop of \<open>InsertBytes\<close> over \<open>i\<close> in \<open>range requiredSlots\<close>; \<open>newKey\<close> is updated in place.\<close>

fun InsertBytes_loop ::
  "Header \<Rightarrow> byte list \<Rightarrow> byte list \<Rightarrow> goslice \<Rightarrow> nat list \<Rightarrow> error + Header" where
  "InsertBytes_loop h key newKey v [] = Inr h"
| "InsertBytes_loop h key newKey v (i # is) =
     (let newKey' = newKey[StemSize := key ! StemSize + of_nat i]
      in case sliceOf v (i * ValueSize) ((i + 1) * ValueSize) of
           Inl e \<Rightarrow> Inl e
         | Inr chunk \<Rightarrow>
             (case insert_h h newKey' chunk of
                Inl e \<Rightarrow> Inl e
              | Inr h' \<Rightarrow> InsertBytes_loop h' key newKey' v is))"

definition InsertBytes :: "Header \<Rightarrow> byte list \<Rightarrow> goslice \<Rightarrow> error + Header" where
  "InsertBytes h key v =
     (if length key \<le> StemSize then Inl IndexPanic
      else
        let expectedSize = (NodeWidth - unat (key ! StemSize)) * ValueSize
        in if length (elems v) > expectedSize then Inl MaxLengthPanic
           else
             let requiredSlots = (length (elems v) + ValueSize - 1) div ValueSize;
                 newKey = copyInto KeySize key
             in case InsertUInt256 h newKey (of_nat requiredSlots) of
                  Inl e \<Rightarrow> Inl e
                | Inr h' \<Rightarrow> InsertBytes_loop h' key newKey v [0..<requiredSlots])"

fun GetBytes_loop ::
  "Header \<Rightarrow> byte list \<Rightarrow> byte list \<Rightarrow> byte list \<Rightarrow> nat list \<Rightarrow> error + byte list" where
  "GetBytes_loop h key newKey acc [] = Inr acc"
| "GetBytes_loop h key newKey acc (i # is) =
     (let newKey' = newKey[StemSize := key ! StemSize + of_nat i]
      in case get h newKey' of
           Inl e \<Rightarrow> Inl e
         | Inr v \<Rightarrow> GetBytes_loop h key newKey' (acc @ bytesOf v) is)"

definition GetBytes :: "Header \<Rightarrow> byte list \<Rightarrow> error + byte list" where
  "GetBytes h key =
     (let newKey = copyInto KeySize key
      in case GetUInt256 h newKey of
           Inl e \<Rightarrow> Inl e
         | Inr n \<Rightarrow>
             (let requiredSlots = unat (Uint64 n)
              in if requiredSlots > 0 \<and> length key \<le> StemSize then Inl IndexPanic
                 else GetBytes_loop h key newKey [] [0..<requiredSlots]))"

text \<open>
  \<open>Paging\<close> mutates the header and returns an error value: the model returns both. The
  getter's \<open>GetBlockHash\<close> is an external collaborator and a parameter.
\<close>

definition applyElem :: "Header \<Rightarrow> TripleElement \<Rightarrow> Header" where
  "applyElem h elem =
     h\<lparr>KV := (KV h)(Key elem \<mapsto> NewValue elem),
       Root := (Root h)(Key elem \<mapsto> NewValue elem)\<rparr>"

definition Paging ::
  "(64 word \<Rightarrow> error + string) \<Rightarrow> bool \<Rightarrow> Header \<Rightarrow> error option \<times> Header" where
  "Paging GetBlockHash queryHash h =
     (let h1 = foldl applyElem h (Temp h);
          h2 = h1\<lparr>Temp := []\<rparr>;
          h3 = h2\<lparr>Height := Height h2 + 1\<rparr>
      in if queryHash
         then (case GetBlockHash (Height h3) of
                 Inl err \<Rightarrow> (Some err, h3)
               | Inr hash \<Rightarrow> (None, h3\<lparr>Hash := hash\<rparr>))
         else (None, h3))"

text \<open>\<open>NewHeader\<close>: an empty tree and flat map, height and hash of the initial state.\<close>

definition NewHeader :: "64 word \<Rightarrow> string \<Rightarrow> Header" where
  "NewHeader initHeight initHash =
     \<lparr>Root = Map.empty, KV = Map.empty, Temp = [], Height = initHeight, Hash = initHash\<rparr>"

section \<open>Library functions used by the interpreter\<close>

text \<open>Conversions between Go strings and byte slices.\<close>

definition bytes :: "string \<Rightarrow> byte list" where
  "bytes s = map of_char s"

definition str :: "byte list \<Rightarrow> string" where
  "str bs = map (\<lambda>b. char_of (uint b)) bs"

text \<open>
  \<open>hex.DecodeString\<close> returns the bytes decoded before the first problem together with
  the error; the second component says that the error is \<open>nil\<close>.
\<close>

definition hexVal :: "char \<Rightarrow> int option" where
  "hexVal c =
     (let n = (of_char c :: int)
      in if 48 \<le> n \<and> n \<le> 57 then Some (n - 48)
         else if 97 \<le> n \<and> n \<le> 102 then Some (n - 87)
         else if 65 \<le> n \<and> n \<le> 70 then Some (n - 55)
         else None)"

fun hexDecodeString :: "string \<Rightarrow> byte list \<times> bool" where
  "hexDecodeString [] = ([], True)"
| "hexDecodeString [p] = ([], False)"
| "hexDecodeString (p # q # rest) =
     (case hexVal p of
        None \<Rightarrow> ([], False)
      | Some a \<Rightarrow>
          (case hexVal q of
             None \<Rightarrow> ([], False)
           | Some b \<Rightarrow>
               (let r = hexDecodeString rest
                in (word_of_int (a * 16 + b) # fst r, snd r))))"

definition hexDigit :: "nat \<Rightarrow> char" where
  "hexDigit n = ''0123456789abcdef'' ! n"

definition hexEncodeToString :: "byte list \<Rightarrow> string" where
  "hexEncodeToString bs =
     concat (map (\<lambda>b. [hexDigit (unat (b div 16)), hexDigit (unat (b mod 16))]) bs)"

text \<open>\<open>strconv.Atoi\<close> on a 64-bit platform: an optional sign, decimal digits, the range
  of \<open>int64\<close>; \<open>None\<close> is the error.\<close>

definition isDigit :: "char \<Rightarrow> bool" where
  "isDigit c = (let n = (of_char c :: int) in 48 \<le> n \<and> n \<le> 57)"

definition decimalValue :: "string \<Rightarrow> int" where
  "decimalValue s = foldl (\<lambda>a c. a * 10 + (of_char c - 48)) 0 s"

definition Atoi :: "string \<Rightarrow> int option" where
  "Atoi s =
     (let neg = (s \<noteq> [] \<and> hd s = CHR ''-'');
          ds = (if s \<noteq> [] \<and> (hd s = CHR ''-'' \<or> hd s = CHR ''+'') then tl s else s)
      in if ds = [] \<or> \<not> list_all isDigit ds then None
         else
           let v = decimalValue ds
           in if neg then (if v > 2 ^ 63 then None else Some (- v))
              else (if v \<ge> 2 ^ 63 then None else Some v))"

section \<open>The interpreter's environment\<close>

text \<open>
  What the interpreter calls and the sources do not contain is a parameter of the model:
  the Keccak-224 hash of \<open>golang.org/x/crypto/sha3\<close>, the Bitcoin address decoder (its
  error is ignored by every caller), the upper limit read from the process environment,
  \<open>strings.ToLower\<close>, the numeric helpers (\<open>None\<close> stands for an error or a \<open>nil\<close> result of
  \<open>getNumberExtendedTo18Decimals\<close>) and \<open>padTo32Bytes\<close> (its error is ignored by its
  callers). Every theorem below holds for all of them unless it says otherwise.
\<close>

record Env =
  keccak224 :: "byte list \<Rightarrow> byte list"
  decodeBitcoinAddress :: "string \<Rightarrow> byte list"
  getLimit :: u256
  ToLower :: "string \<Rightarrow> string"
  isPositiveNumber :: "string \<Rightarrow> bool \<Rightarrow> bool"
  isPositiveNumberWithDot :: "string \<Rightarrow> bool \<Rightarrow> bool"
  getNumberExtendedTo18Decimals :: "string \<Rightarrow> u256 \<Rightarrow> bool \<Rightarrow> u256 option"
  padTo32Bytes :: "byte list \<Rightarrow> byte list"

text \<open>An ordinal-transfer record. \<open>Content\<close> is the JSON document of the inscription; the
  model carries the flat string map that \<open>json.Unmarshal\<close> leaves in \<open>js\<close> (a field that
  does not decode is absent).\<close>

record OrdTransfer =
  ID :: "64 word"
  InscriptionID :: string
  OldSatpoint :: string
  NewPkscript :: string
  NewWallet :: string
  SentAsFee :: bool
  ContentType :: string
  Content :: "string \<rightharpoonup> string"

text \<open>Sequencing of calls that may panic.\<close>

definition bindE :: "error + 'a \<Rightarrow> ('a \<Rightarrow> error + 'b) \<Rightarrow> error + 'b" where
  "bindE m f = (case m of Inl e \<Rightarrow> Inl e | Inr x \<Rightarrow> f x)"

section \<open>Key derivation (ord/brc20.go)\<close>

definition AvailableBalancePkscript :: byte where "AvailableBalancePkscript = 0"
definition AvailableBalance :: byte where "AvailableBalance = 1"
definition OverallBalancePkscript :: byte where "OverallBalancePkscript = 2"
definition OverallBalance :: byte where "OverallBalance = 3"
definition Exists :: byte where "Exists = 4"
definition RemainingSupply :: byte where "RemainingSupply = 5"
definition MaxSupply :: byte where "MaxSupply = 6"
definition LimitPerMint :: byte where "LimitPerMint = 7"
definition Decimals :: byte where "Decimals = 8"

definition TransferInscribeSourceWallet :: "byte list" where
  "TransferInscribeSourceWallet = [0, 0, 0, 0]"
definition TransferInscribeSourcePkscript1 :: "byte list" where
  "TransferInscribeSourcePkscript1 = [1, 0, 0, 0]"
definition TransferInscribeSourcePkscript2 :: "byte list" where
  "TransferInscribeSourcePkscript2 = [2, 0, 0, 0]"
definition TransferTransferCount :: "byte list" where
  "TransferTransferCount = [3, 0, 0, 0]"
definition TransferInscribeCount :: "byte list" where
  "TransferInscribeCount = [4, 0, 0, 0]"

definition GetHash :: "Env \<Rightarrow> byte \<Rightarrow> string \<Rightarrow> string \<Rightarrow> error + byte list" where
  "GetHash env stateID uniqueID tick =
     (let prefixHash = keccak224 env (bytes uniqueID)
      in if \<not> (length tick = 4 \<or> length tick = 5) then Inl TickLengthPanic
         else
           let n = (if length tick = 4 then 27 else 26)
           in if length prefixHash < n then Inl SliceBoundsPanic
              else
                let res = take n prefixHash @ [stateID] @ bytes tick
                in if length res \<noteq> 32 then Inl HashLengthPanic else Inr res)"

definition GetTickStatus ::
  "Env \<Rightarrow> string \<Rightarrow> error + (byte list \<times> byte list \<times> byte list \<times> byte list \<times> byte list)" where
  "GetTickStatus env tick =
     bindE (GetHash env Exists [] tick) (\<lambda>keyExists.
     bindE (GetHash env RemainingSupply [] tick) (\<lambda>keyRemainingSupply.
     bindE (GetHash env MaxSupply [] tick) (\<lambda>keyMaxSupply.
     bindE (GetHash env LimitPerMint [] tick) (\<lambda>keyLimitPerMint.
     bindE (GetHash env Decimals [] tick) (\<lambda>keyDecimals.
       Inr (keyExists, keyRemainingSupply, keyMaxSupply, keyLimitPerMint, keyDecimals))))))"

definition GetEventHash :: "Env \<Rightarrow> byte list \<Rightarrow> string \<Rightarrow> byte list" where
  "GetEventHash env eventID inscrID = eventID @ keccak224 env (bytes inscrID)"

section \<open>The store as the interpreter sees it\<close>

text \<open>Modelled from the spec: the method \<open>Insert\<close> of \<open>KVStorage\<close> is not in the sources.
  The interpreter writes through the committed store, whose \<open>insert\<close> takes a 32-byte key
  and a 32-byte value and stages the write (section 4.C): it is \<open>Header.insert\<close>.\<close>

definition Insert :: "Header \<Rightarrow> byte list \<Rightarrow> byte list \<Rightarrow> error + Header" where
  "Insert state key val = insert_h state key val"

text \<open>Modelled from the spec: the method \<open>Get\<close> of \<open>KVStorage\<close> is not in the sources. It is
  the direct authenticated read of section 4.C, \<open>Header.get\<close>, which returns committed
  values only until the next paging (section 5).\<close>

definition Get :: "Header \<Rightarrow> byte list \<Rightarrow> error + byte list option" where
  "Get state key = get state key"

text \<open>Modelled from the spec: the method \<open>GetValueOrZero\<close> of \<open>KVStorage\<close> is not in the
  sources. It is \<open>get_u256\<close> of section 4.C, zero when the key is absent and the big-endian
  value otherwise: \<open>Header.GetUInt256\<close>.\<close>

definition GetValueOrZero :: "Header \<Rightarrow> byte list \<Rightarrow> error + u256" where
  "GetValueOrZero state key = GetUInt256 state key"

text \<open>Modelled from the spec: \<open>convertIntToByte\<close> is not in the sources. A 256-bit integer
  occupies a fixed 32-byte big-endian slot (section 4.D).\<close>

definition convertIntToByte :: "u256 \<Rightarrow> byte list" where
  "convertIntToByte v = WriteToArray32 v"

text \<open>Modelled from the spec: \<open>convertByteToInt\<close> is not in the sources. It decodes a
  big-endian slot; a missing value is the logical zero (section 4.D).\<close>

definition convertByteToInt :: "byte list option \<Rightarrow> u256" where
  "convertByteToInt v = SetBytes (bytesOf v)"

section \<open>The BRC-20 operations (ord/brc20.go)\<close>

definition deployInscribe ::
  "Env \<Rightarrow> Header \<Rightarrow> string \<Rightarrow> string \<Rightarrow> string \<Rightarrow> string \<Rightarrow> u256 \<Rightarrow> u256 \<Rightarrow> u256
     \<Rightarrow> error + Header" where
  "deployInscribe env state inscrID newPkscript newAddr tick maxSupply decimals limitPerMint =
     bindE (GetTickStatus env tick)
       (\<lambda>(keyExists, keyRemainingSupply, keyMaxSupply, keyLimitPerMint, keyDecimals).
     bindE (Insert state keyExists (convertIntToByte 0)) (\<lambda>s1.
     bindE (Insert s1 keyRemainingSupply (convertIntToByte maxSupply)) (\<lambda>s2.
     bindE (Insert s2 keyMaxSupply (convertIntToByte maxSupply)) (\<lambda>s3.
     bindE (Insert s3 keyLimitPerMint (convertIntToByte limitPerMint)) (\<lambda>s4.
     Insert s4 keyDecimals (convertIntToByte decimals))))))"

definition mintInscribe ::
  "Env \<Rightarrow> Header \<Rightarrow> string \<Rightarrow> string \<Rightarrow> string \<Rightarrow> string \<Rightarrow> u256 \<Rightarrow> error + Header" where
  "mintInscribe env state inscrID newPkscript newAddr0 tick amount =
     (let newAddr = str (decodeBitcoinAddress env newAddr0)
      in bindE (GetHash env AvailableBalancePkscript newPkscript tick) (\<lambda>availableKey.
         bindE (GetHash env OverallBalancePkscript newPkscript tick) (\<lambda>overallKey.
         bindE (GetValueOrZero state availableKey) (\<lambda>prevAvailableBalance.
         bindE (GetValueOrZero state overallKey) (\<lambda>prevOverallBalance.
           let newAvailableBalance = prevAvailableBalance + amount;
               newOverallBalance = prevOverallBalance + amount
           in bindE (Insert state availableKey (convertIntToByte newAvailableBalance)) (\<lambda>s1.
              bindE (Insert s1 overallKey (convertIntToByte newOverallBalance)) (\<lambda>s2.
              bindE (GetHash env AvailableBalance newAddr tick) (\<lambda>availableKey2.
              bindE (GetHash env OverallBalance newAddr tick) (\<lambda>overallKey2.
              bindE (Insert s2 availableKey2 (convertIntToByte newAvailableBalance)) (\<lambda>s3.
              bindE (Insert s3 overallKey2 (convertIntToByte newOverallBalance)) (\<lambda>s4.
              bindE (GetTickStatus env tick) (\<lambda>(k1, keyRemainingSupply, k3, k4, k5).
              bindE (Get s4 keyRemainingSupply) (\<lambda>prevRemainingSupply.
                let newRemainingSupply = convertByteToInt prevRemainingSupply - amount
                in Insert s4 keyRemainingSupply (convertIntToByte newRemainingSupply))))))))))))))"

definition saveSourceWalletAndPkscript ::
  "Env \<Rightarrow> Header \<Rightarrow> string \<Rightarrow> string \<Rightarrow> string \<Rightarrow> error + Header" where
  "saveSourceWalletAndPkscript env state inscrID sourceAddr pkScript0 =
     (let eventKey = GetEventHash env TransferInscribeSourceWallet inscrID
      in bindE (Insert state eventKey (bytes sourceAddr)) (\<lambda>s1.
           let n = length pkScript0;
               prefix = [of_nat n :: byte];
               pkScript = (if n mod 2 = 1 then pkScript0 @ ''0'' else pkScript0);
               encodedPkscript = prefix @ fst (hexDecodeString pkScript);
               pkScriptKey1 = GetEventHash env TransferInscribeSourcePkscript1 inscrID;
               b1 = padTo32Bytes env (take (min (length encodedPkscript) 32) encodedPkscript)
           in bindE (Insert s1 pkScriptKey1 b1) (\<lambda>s2.
                if length encodedPkscript > 32
                then
                  let pkScriptKey2 = GetEventHash env TransferInscribeSourcePkscript2 inscrID;
                      b2 = padTo32Bytes env (drop 32 encodedPkscript)
                  in Insert s2 pkScriptKey2 b2
                else Inr s2)))"

definition getSourceWalletAndPkscript ::
  "Env \<Rightarrow> Header \<Rightarrow> string \<Rightarrow> error + (string \<times> string)" where
  "getSourceWalletAndPkscript env state inscrID =
     (let eventKey = GetEventHash env TransferInscribeSourceWallet inscrID
      in bindE (Get state eventKey) (\<lambda>sourceAddr.
           let pkScriptKey1 = GetEventHash env TransferInscribeSourcePkscript1 inscrID;
               pkScriptKey2 = GetEventHash env TransferInscribeSourcePkscript2 inscrID
           in bindE (Get state pkScriptKey1) (\<lambda>b1.
              bindE (Get state pkScriptKey2) (\<lambda>b2.
                let b = bytesOf b1 @ bytesOf b2
                in if b = [] then Inl IndexPanic
                   else
                     let n = unat (hd b);
                         encoded = hexEncodeToString (tl b)
                     in if n > length encoded then Inl SliceBoundsPanic
                        else Inr (str (bytesOf sourceAddr), take n encoded)))))"

definition transferInscribe ::
  "Env \<Rightarrow> Header \<Rightarrow> string \<Rightarrow> string \<Rightarrow> string \<Rightarrow> string \<Rightarrow> u256 \<Rightarrow> u256 \<Rightarrow> error + Header" where
  "transferInscribe env state inscrID sourcePkScript sourceAddr0 tick amount availableBalance =
     (let sourceAddr = str (decodeBitcoinAddress env sourceAddr0);
          newAvailableBalance = availableBalance - amount
      in bindE (GetHash env AvailableBalance sourceAddr tick) (\<lambda>availableKey.
         bindE (Insert state availableKey (convertIntToByte newAvailableBalance)) (\<lambda>s1.
         bindE (GetHash env AvailableBalancePkscript sourcePkScript tick) (\<lambda>availableKey2.
         bindE (Insert s1 availableKey2 (convertIntToByte newAvailableBalance)) (\<lambda>s2.
         bindE (saveSourceWalletAndPkscript env s2 inscrID sourceAddr sourcePkScript) (\<lambda>s3.
           let eventCntKey = GetEventHash env TransferInscribeCount inscrID
           in bindE (GetValueOrZero s3 eventCntKey) (\<lambda>cnt.
                let newEventCnt = cnt + 1
                in Insert s3 eventCntKey (convertIntToByte newEventCnt))))))))"

definition isUsedOrInvalid :: "Env \<Rightarrow> Header \<Rightarrow> string \<Rightarrow> error + bool" where
  "isUsedOrInvalid env state inscrID =
     (let tIEventKey = GetEventHash env TransferInscribeCount inscrID
      in bindE (GetValueOrZero state tIEventKey) (\<lambda>transferInscribeCnt.
           let tTEventKey = GetEventHash env TransferTransferCount inscrID
           in bindE (GetValueOrZero state tTEventKey) (\<lambda>transferTransferCnt.
                Inr (\<not> (transferInscribeCnt = 1) \<or> \<not> (transferTransferCnt = 0)))))"

definition transferTransferSpendToFee ::
  "Env \<Rightarrow> Header \<Rightarrow> string \<Rightarrow> string \<Rightarrow> u256 \<Rightarrow> 64 word \<Rightarrow> error + Header" where
  "transferTransferSpendToFee env state inscrID tick amount txId =
     bindE (getSourceWalletAndPkscript env state inscrID) (\<lambda>(sourceAddr, sourcePkScript).
     bindE (GetHash env AvailableBalance sourceAddr tick) (\<lambda>availableKey.
     bindE (GetValueOrZero state availableKey) (\<lambda>lastAvailableBalance.
       let newAvailableBalance = lastAvailableBalance + amount
       in bindE (Insert state availableKey (convertIntToByte newAvailableBalance)) (\<lambda>s1.
          bindE (GetHash env AvailableBalancePkscript sourcePkScript tick) (\<lambda>availableKey2.
          bindE (Insert s1 availableKey2 (convertIntToByte newAvailableBalance)) (\<lambda>s2.
            let eventCntKey = GetEventHash env TransferTransferCount inscrID
            in bindE (GetValueOrZero s2 eventCntKey) (\<lambda>cnt.
                 let newTransferTransferCnt = cnt + 1
                 in Insert s2 eventCntKey (convertIntToByte newTransferTransferCnt))))))))"

definition transferTransferNormal ::
  "Env \<Rightarrow> Header \<Rightarrow> string \<Rightarrow> string \<Rightarrow> string \<Rightarrow> string \<Rightarrow> u256 \<Rightarrow> 64 word
     \<Rightarrow> error + Header" where
  "transferTransferNormal env state inscrID spentPkScript spentAddr0 tick amount txId =
     (let spentAddr = str (decodeBitcoinAddress env spentAddr0)
      in bindE (getSourceWalletAndPkscript env state inscrID) (\<lambda>(sourceAddr, sourcePkScript).
         bindE (GetHash env OverallBalance sourceAddr tick) (\<lambda>sourceOverallKey.
         bindE (GetValueOrZero state sourceOverallKey) (\<lambda>sourceOverall.
           let newSourceOverallBalance = sourceOverall - amount
           in bindE (Insert state sourceOverallKey (convertIntToByte newSourceOverallBalance))
                (\<lambda>s1.
              bindE (GetHash env OverallBalancePkscript sourcePkScript tick) (\<lambda>sourcePkOverallKey.
              bindE (Insert s1 sourcePkOverallKey (convertIntToByte newSourceOverallBalance))
                (\<lambda>s2.
              bindE (GetHash env AvailableBalance spentAddr tick) (\<lambda>spentAvailableKey.
              bindE (GetHash env OverallBalance spentAddr tick) (\<lambda>spentOverallKey.
              bindE (GetValueOrZero s2 spentAvailableKey) (\<lambda>spentAvailable.
              bindE (GetValueOrZero s2 spentOverallKey) (\<lambda>spentOverall.
                let newSpentAvailableBalance = spentAvailable + amount;
                    newSpentOverallBalance = spentOverall + amount
                in bindE (Insert s2 spentAvailableKey (convertIntToByte newSpentAvailableBalance))
                     (\<lambda>s3.
                   bindE (Insert s3 spentOverallKey (convertIntToByte newSpentOverallBalance))
                     (\<lambda>s4.
                   bindE (GetHash env AvailableBalancePkscript spentPkScript tick)
                     (\<lambda>spentAvailableKey2.
                   bindE (GetHash env OverallBalancePkscript spentPkScript tick)
                     (\<lambda>spentOverallKey2.
                   bindE (Insert s4 spentAvailableKey2 (convertIntToByte newSpentAvailableBalance))
                     (\<lambda>s5.
                   bindE (Insert s5 spentOverallKey2 (convertIntToByte newSpentOverallBalance))
                     (\<lambda>s6.
                     let eventCntKey = GetEventHash env TransferTransferCount inscrID
                     in bindE (GetValueOrZero s6 eventCntKey) (\<lambda>cnt.
                          let newTransferTransferCnt = cnt + 1
                          in Insert s6 eventCntKey
                               (convertIntToByte newTransferTransferCnt)))))))))))))))))))"

section \<open>The interpreter loop (Exec)\<close>

text \<open>
  The body of the loop of \<open>Exec\<close> is \<open>Exec_body\<close>; its three blocks are \<open>Exec_deploy\<close>,
  \<open>Exec_mint\<close> and \<open>Exec_transfer\<close>. A \<open>continue\<close> returns the state as it is. The three
  blocks are guarded by different values of \<open>js["op"]\<close>, so at most one of them runs and
  the body is a chain of alternatives. The \<open>log.Println\<close> of the deploy block has no
  effect on the state and is left out.
\<close>

text \<open>The decimals of a deploy record: 18 unless \<open>dec\<close> is given; \<open>None\<close> is \<open>continue\<close>.\<close>

definition deployDecimals :: "Env \<Rightarrow> (string \<rightharpoonup> string) \<Rightarrow> u256 option" where
  "deployDecimals env js =
     (case js ''dec'' of
        None \<Rightarrow> Some 18
      | Some decValue \<Rightarrow>
          if \<not> isPositiveNumber env decValue False then None
          else (case Atoi decValue of
                  None \<Rightarrow> None
                | Some decimalsInt \<Rightarrow> Some (word_of_int decimalsInt)))"

text \<open>The limit per mint of a deploy record: \<open>max\<close> unless \<open>lim\<close> is given; \<open>None\<close> is
  \<open>continue\<close>.\<close>

definition deployLimit ::
  "Env \<Rightarrow> u256 \<Rightarrow> (string \<rightharpoonup> string) \<Rightarrow> u256 \<Rightarrow> u256 \<Rightarrow> u256 option" where
  "deployLimit env upperLimit js decimals maxSupply =
     (case js ''lim'' of
        None \<Rightarrow> Some maxSupply
      | Some lim \<Rightarrow>
          if \<not> isPositiveNumberWithDot env lim False then None
          else (case getNumberExtendedTo18Decimals env lim decimals False of
                  None \<Rightarrow> None
                | Some limitPerMint \<Rightarrow>
                    if limitPerMint > upperLimit \<or> limitPerMint = 0 then None
                    else Some limitPerMint))"

definition Exec_deploy ::
  "Env \<Rightarrow> u256 \<Rightarrow> Header \<Rightarrow> OrdTransfer \<Rightarrow> string \<Rightarrow> error + Header" where
  "Exec_deploy env upperLimit state transfer tick =
     (let js = Content transfer
      in case js ''max'' of
           None \<Rightarrow> Inr state
         | Some maxSupplyValue \<Rightarrow>
             bindE (GetTickStatus env tick) (\<lambda>(keyExists, k2, k3, k4, k5).
             bindE (Get state keyExists) (\<lambda>v.
               if len v \<noteq> 0 then Inr state
               else
                 case deployDecimals env js of
                   None \<Rightarrow> Inr state
                 | Some decimals \<Rightarrow>
                     if decimals > 18 then Inr state
                     else if \<not> isPositiveNumberWithDot env maxSupplyValue False then Inr state
                     else
                       case getNumberExtendedTo18Decimals env maxSupplyValue decimals False of
                         None \<Rightarrow> Inr state
                       | Some maxSupply \<Rightarrow>
                           if maxSupply > upperLimit \<or> maxSupply = 0 then Inr state
                           else
                             case deployLimit env upperLimit js decimals maxSupply of
                               None \<Rightarrow> Inr state
                             | Some limitPerMint \<Rightarrow>
                                 deployInscribe env state (InscriptionID transfer)
                                   (NewPkscript transfer) (NewWallet transfer) tick
                                   maxSupply decimals limitPerMint)))"

definition Exec_mint ::
  "Env \<Rightarrow> u256 \<Rightarrow> Header \<Rightarrow> OrdTransfer \<Rightarrow> string \<Rightarrow> error + Header" where
  "Exec_mint env upperLimit state transfer tick =
     (let js = Content transfer
      in case js ''amt'' of
           None \<Rightarrow> Inr state
         | Some amountString \<Rightarrow>
             bindE (GetTickStatus env tick)
               (\<lambda>(keyExists, keyRemainingSupply, k3, keyLimitPerMint, keyDecimals).
             bindE (Get state keyExists) (\<lambda>tickExists.
               if len tickExists = 0 then Inr state
               else
                 bindE (Get state keyRemainingSupply) (\<lambda>remainingSupplyBytes.
                 bindE (Get state keyLimitPerMint) (\<lambda>limitPerMintBytes.
                 bindE (Get state keyDecimals) (\<lambda>decimalsBytes.
                   let remainingSupply = convertByteToInt remainingSupplyBytes;
                       limitPerMint = convertByteToInt limitPerMintBytes;
                       decimals = convertByteToInt decimalsBytes
                   in if \<not> isPositiveNumberWithDot env amountString False then Inr state
                      else
                        case getNumberExtendedTo18Decimals env amountString decimals False of
                          None \<Rightarrow> Inr state
                        | Some amount \<Rightarrow>
                            if amount > upperLimit \<or> amount = 0 then Inr state
                            else if remainingSupply = 0 then Inr state
                            else if amount > limitPerMint then Inr state
                            else
                              let amount' = (if amount > remainingSupply then remainingSupply
                                             else amount)
                              in mintInscribe env state (InscriptionID transfer)
                                   (NewPkscript transfer) (NewWallet transfer) tick amount'))))))"

definition Exec_transfer ::
  "Env \<Rightarrow> u256 \<Rightarrow> Header \<Rightarrow> OrdTransfer \<Rightarrow> string \<Rightarrow> error + Header" where
  "Exec_transfer env upperLimit state transfer tick =
     (let js = Content transfer
      in case js ''amt'' of
           None \<Rightarrow> Inr state
         | Some amountString \<Rightarrow>
             bindE (GetTickStatus env tick) (\<lambda>(keyExists, k2, k3, k4, keyDecimals).
             bindE (Get state keyExists) (\<lambda>tickExists.
             bindE (Get state keyDecimals) (\<lambda>decimalBytes.
               if len tickExists = 0 then Inr state
               else
                 let decimals = convertByteToInt decimalBytes
                 in if \<not> isPositiveNumberWithDot env amountString False then Inr state
                    else
                      case getNumberExtendedTo18Decimals env amountString decimals False of
                        None \<Rightarrow> Inr state
                      | Some amount \<Rightarrow>
                          if amount > upperLimit \<or> amount = 0 then Inr state
                          else if OldSatpoint transfer = []
                          then
                            bindE (GetHash env AvailableBalancePkscript (NewPkscript transfer) tick)
                              (\<lambda>key.
                            bindE (GetValueOrZero state key) (\<lambda>availableBalance.
                              if availableBalance < amount then Inr state
                              else transferInscribe env state (InscriptionID transfer)
                                     (NewPkscript transfer) (NewWallet transfer) tick amount
                                     availableBalance))
                          else
                            bindE (isUsedOrInvalid env state (InscriptionID transfer)) (\<lambda>used.
                              if used then Inr state
                              else if SentAsFee transfer
                              then transferTransferSpendToFee env state (InscriptionID transfer)
                                     tick amount (ID transfer)
                              else transferTransferNormal env state (InscriptionID transfer)
                                     (NewPkscript transfer) (NewWallet transfer) tick amount
                                     (ID transfer))))))"

definition contentTypeOf :: "string \<Rightarrow> string" where
  "contentTypeOf contentType0 =
     (let decoded = hexDecodeString contentType0;
          contentType = (if snd decoded then str (fst decoded) else contentType0)
      in takeWhile (\<lambda>c. c \<noteq> CHR '';'') contentType)"

definition Exec_body :: "Env \<Rightarrow> u256 \<Rightarrow> Header \<Rightarrow> OrdTransfer \<Rightarrow> error + Header" where
  "Exec_body env upperLimit state transfer =
     (let js = Content transfer
      in if SentAsFee transfer \<and> OldSatpoint transfer = [] then Inr state
         else if ContentType transfer = [] then Inr state
         else
           let contentType = contentTypeOf (ContentType transfer)
           in if contentType \<noteq> ''application/json'' \<and> contentType \<noteq> ''text/plain''
              then Inr state
              else
                case js ''tick'' of
                  None \<Rightarrow> Inr state
                | Some tick0 \<Rightarrow>
                    (case js ''op'' of
                       None \<Rightarrow> Inr state
                     | Some op \<Rightarrow>
                         let tick = ToLower env tick0
                         in if length tick \<noteq> 4 then Inr state
                            else if op = ''deploy'' \<and> OldSatpoint transfer = []
                            then Exec_deploy env upperLimit state transfer tick
                            else if op = ''mint'' \<and> OldSatpoint transfer = []
                            then Exec_mint env upperLimit state transfer tick
                            else if op = ''transfer''
                            then Exec_transfer env upperLimit state transfer tick
                            else Inr state))"

fun Exec_loop :: "Env \<Rightarrow> u256 \<Rightarrow> Header \<Rightarrow> OrdTransfer list \<Rightarrow> error + Header" where
  "Exec_loop env upperLimit state [] = Inr state"
| "Exec_loop env upperLimit state (transfer # rest) =
     (case Exec_body env upperLimit state transfer of
        Inl e \<Rightarrow> Inl e
      | Inr state' \<Rightarrow> Exec_loop env upperLimit state' rest)"

definition Exec :: "Env \<Rightarrow> Header \<Rightarrow> OrdTransfer list \<Rightarrow> error + Header" where
  "Exec env state ordTransfer =
     (let upperLimit = getLimit env
      in if length ordTransfer = 0 then Inr state
         else Exec_loop env upperLimit state ordTransfer)"

text \<open>
  The caller of \<open>Exec\<close> is not in the sources. After a batch the store pages the pending
  writes (section 2 of the specification): \<open>execBlocks\<close> runs \<open>Exec\<close> on each batch and
  \<open>Paging\<close> after it, whatever \<open>Paging\<close> returns.
\<close>

fun execBlocks ::
  "Env \<Rightarrow> (64 word \<Rightarrow> error + string) \<Rightarrow> bool \<Rightarrow> Header \<Rightarrow> OrdTransfer list list
     \<Rightarrow> error + Header" where
  "execBlocks env g q h [] = Inr h"
| "execBlocks env g q h (b # bs) =
     bindE (Exec env h b) (\<lambda>h1. execBlocks env g q (snd (Paging g q h1)) bs)"

section \<open>Notions used in the statements\<close>

text \<open>The element that \<open>insert\<close> stages for a key and a value, and a header with more
  staged elements.\<close>

definition staged :: "Header \<Rightarrow> byte list \<Rightarrow> byte list \<Rightarrow> TripleElement" where
  "staged h key val =
     \<lparr>Key = key, OldValue = copyInto ValueSize (bytesOf (Root h key)), NewValue = val,
      OldValueExists = (Root h key \<noteq> None)\<rparr>"

text \<open>The elements that \<open>saveSourceWalletAndPkscript\<close> stages.\<close>

definition sourceWrites :: "Env \<Rightarrow> Header \<Rightarrow> string \<Rightarrow> string \<Rightarrow> string \<Rightarrow> TripleElement list" where
  "sourceWrites env h inscrID sourceAddr pkScript0 =
     (let pkScript = (if length pkScript0 mod 2 = 1 then pkScript0 @ ''0'' else pkScript0);
          encodedPkscript = [of_nat (length pkScript0)] @ fst (hexDecodeString pkScript)
      in [staged h (GetEventHash env TransferInscribeSourceWallet inscrID) (bytes sourceAddr),
          staged h (GetEventHash env TransferInscribeSourcePkscript1 inscrID)
            (padTo32Bytes env (take (min (length encodedPkscript) 32) encodedPkscript))]
         @ (if length encodedPkscript > 32
            then [staged h (GetEventHash env TransferInscribeSourcePkscript2 inscrID)
                    (padTo32Bytes env (drop 32 encodedPkscript))]
            else []))"

definition stage :: "Header \<Rightarrow> TripleElement list \<Rightarrow> Header" where
  "stage h ws = h\<lparr>Temp := Temp h @ ws\<rparr>"


text \<open>A record passes the checks of the loop body that precede the three blocks, with
  operation \<open>op\<close> and lower-cased tick \<open>tick\<close>.\<close>

definition prelude :: "Env \<Rightarrow> OrdTransfer \<Rightarrow> string \<Rightarrow> string \<Rightarrow> bool" where
  "prelude env t op tick \<longleftrightarrow>
     \<not> (SentAsFee t \<and> OldSatpoint t = []) \<and> ContentType t \<noteq> []
     \<and> (contentTypeOf (ContentType t) = ''application/json''
          \<or> contentTypeOf (ContentType t) = ''text/plain'')
     \<and> (\<exists>tick0. Content t ''tick'' = Some tick0 \<and> ToLower env tick0 = tick)
     \<and> Content t ''op'' = Some op \<and> length tick = 4"

subsection \<open>The writes of a record\<close>

text \<open>The key that \<open>GetHash\<close> derives for a tick of four bytes.\<close>

definition stateKey :: "Env \<Rightarrow> byte \<Rightarrow> string \<Rightarrow> string \<Rightarrow> byte list" where
  "stateKey env stateID uniqueID tick =
     take 27 (keccak224 env (bytes uniqueID)) @ [stateID] @ bytes tick"

text \<open>The committed 256-bit value at a key, zero when there is none: what \<open>GetValueOrZero\<close>
  reads.\<close>

definition u256At :: "Header \<Rightarrow> byte list \<Rightarrow> u256" where
  "u256At h key = (if len (Root h key) = 0 then 0 else SetBytes (bytesOf (Root h key)))"

text \<open>The source wallet and the source pkscript that \<open>getSourceWalletAndPkscript\<close> recovers
  from the committed event records of an inscription.\<close>

definition sourceOf :: "Env \<Rightarrow> Header \<Rightarrow> string \<Rightarrow> string \<times> string" where
  "sourceOf env h inscrID =
     (let b = bytesOf (Root h (GetEventHash env TransferInscribeSourcePkscript1 inscrID))
              @ bytesOf (Root h (GetEventHash env TransferInscribeSourcePkscript2 inscrID))
      in (str (bytesOf (Root h (GetEventHash env TransferInscribeSourceWallet inscrID))),
          take (unat (hd b)) (hexEncodeToString (tl b))))"

text \<open>The elements that \<open>deployInscribe\<close>, \<open>mintInscribe\<close>, \<open>transferInscribe\<close>,
  \<open>transferTransferSpendToFee\<close> and \<open>transferTransferNormal\<close> stage, in the order of their
  calls of \<open>Insert\<close>, on a state whose committed values are those of \<open>h\<close>.\<close>

definition deployWrites ::
  "Env \<Rightarrow> Header \<Rightarrow> string \<Rightarrow> u256 \<Rightarrow> u256 \<Rightarrow> u256 \<Rightarrow> TripleElement list" where
  "deployWrites env h tick maxSupply decimals limitPerMint =
     [staged h (stateKey env Exists [] tick) (convertIntToByte 0),
      staged h (stateKey env RemainingSupply [] tick) (convertIntToByte maxSupply),
      staged h (stateKey env MaxSupply [] tick) (convertIntToByte maxSupply),
      staged h (stateKey env LimitPerMint [] tick) (convertIntToByte limitPerMint),
      staged h (stateKey env Decimals [] tick) (convertIntToByte decimals)]"

definition mintWrites ::
  "Env \<Rightarrow> Header \<Rightarrow> string \<Rightarrow> string \<Rightarrow> string \<Rightarrow> u256 \<Rightarrow> TripleElement list" where
  "mintWrites env h pk addr tick credited =
     (let wallet = str (decodeBitcoinAddress env addr);
          kAP = stateKey env AvailableBalancePkscript pk tick;
          kOP = stateKey env OverallBalancePkscript pk tick;
          kR = stateKey env RemainingSupply [] tick
      in [staged h kAP (convertIntToByte (u256At h kAP + credited)),
          staged h kOP (convertIntToByte (u256At h kOP + credited)),
          staged h (stateKey env AvailableBalance wallet tick)
            (convertIntToByte (u256At h kAP + credited)),
          staged h (stateKey env OverallBalance wallet tick)
            (convertIntToByte (u256At h kOP + credited)),
          staged h kR (convertIntToByte (u256At h kR - credited))])"

definition inscribeWrites ::
  "Env \<Rightarrow> Header \<Rightarrow> string \<Rightarrow> string \<Rightarrow> string \<Rightarrow> string \<Rightarrow> u256 \<Rightarrow> TripleElement list" where
  "inscribeWrites env h inscrID pk addr tick amount =
     (let wallet = str (decodeBitcoinAddress env addr);
          kAP = stateKey env AvailableBalancePkscript pk tick;
          kCnt = GetEventHash env TransferInscribeCount inscrID
      in [staged h (stateKey env AvailableBalance wallet tick)
            (convertIntToByte (u256At h kAP - amount)),
          staged h kAP (convertIntToByte (u256At h kAP - amount))]
         @ sourceWrites env h inscrID wallet pk
         @ [staged h kCnt (convertIntToByte (u256At h kCnt + 1))])"

definition feeWrites ::
  "Env \<Rightarrow> Header \<Rightarrow> string \<Rightarrow> string \<Rightarrow> u256 \<Rightarrow> TripleElement list" where
  "feeWrites env h inscrID tick amount =
     (let kAW = stateKey env AvailableBalance (fst (sourceOf env h inscrID)) tick;
          kCnt = GetEventHash env TransferTransferCount inscrID
      in [staged h kAW (convertIntToByte (u256At h kAW + amount)),
          staged h (stateKey env AvailableBalancePkscript (snd (sourceOf env h inscrID)) tick)
            (convertIntToByte (u256At h kAW + amount)),
          staged h kCnt (convertIntToByte (u256At h kCnt + 1))])"

definition normalWrites ::
  "Env \<Rightarrow> Header \<Rightarrow> string \<Rightarrow> string \<Rightarrow> string \<Rightarrow> string \<Rightarrow> u256 \<Rightarrow> TripleElement list" where
  "normalWrites env h inscrID pk addr tick amount =
     (let wallet = str (decodeBitcoinAddress env addr);
          kSW = stateKey env OverallBalance (fst (sourceOf env h inscrID)) tick;
          kAW = stateKey env AvailableBalance wallet tick;
          kOW = stateKey env OverallBalance wallet tick;
          kCnt = GetEventHash env TransferTransferCount inscrID
      in [staged h kSW (convertIntToByte (u256At h kSW - amount)),
          staged h (stateKey env OverallBalancePkscript (snd (sourceOf env h inscrID)) tick)
            (convertIntToByte (u256At h kSW - amount)),
          staged h kAW (convertIntToByte (u256At h kAW + amount)),
          staged h kOW (convertIntToByte (u256At h kOW + amount)),
          staged h (stateKey env AvailableBalancePkscript pk tick)
            (convertIntToByte (u256At h kAW + amount)),
          staged h (stateKey env OverallBalancePkscript pk tick)
            (convertIntToByte (u256At h kOW + amount)),
          staged h kCnt (convertIntToByte (u256At h kCnt + 1))])"

text \<open>\<open>recordWrites env h t ws\<close>: \<open>ws\<close> is a list of elements that the record \<open>t\<close> can stage
  when the committed values are those of \<open>h\<close>: nothing, or the writes of the operation that
  the record selects, with the conditions under which \<open>Exec\<close> calls it.\<close>

definition recordWrites :: "Env \<Rightarrow> Header \<Rightarrow> OrdTransfer \<Rightarrow> TripleElement list \<Rightarrow> bool" where
  "recordWrites env h t ws \<longleftrightarrow>
     ws = []
     \<or> (\<exists>tick maxSupply decimals limitPerMint.
          prelude env t ''deploy'' tick \<and> OldSatpoint t = []
        \<and> ws = deployWrites env h tick maxSupply decimals limitPerMint)
     \<or> (\<exists>tick credited.
          prelude env t ''mint'' tick \<and> OldSatpoint t = []
        \<and> credited \<le> u256At h (stateKey env RemainingSupply [] tick)
        \<and> ws = mintWrites env h (NewPkscript t) (NewWallet t) tick credited)
     \<or> (\<exists>tick amount.
          prelude env t ''transfer'' tick \<and> OldSatpoint t = []
        \<and> amount \<le> u256At h (stateKey env AvailableBalancePkscript (NewPkscript t) tick)
        \<and> ws = inscribeWrites env h (InscriptionID t) (NewPkscript t) (NewWallet t) tick amount
        \<and> list_all (\<lambda>e. length (NewValue e) = 32) ws)
     \<or> (\<exists>tick amount.
          prelude env t ''transfer'' tick \<and> OldSatpoint t \<noteq> [] \<and> SentAsFee t
        \<and> u256At h (GetEventHash env TransferInscribeCount (InscriptionID t)) = 1
        \<and> u256At h (GetEventHash env TransferTransferCount (InscriptionID t)) = 0
        \<and> ws = feeWrites env h (InscriptionID t) tick amount)
     \<or> (\<exists>tick amount.
          prelude env t ''transfer'' tick \<and> OldSatpoint t \<noteq> [] \<and> \<not> SentAsFee t
        \<and> u256At h (GetEventHash env TransferInscribeCount (InscriptionID t)) = 1
        \<and> u256At h (GetEventHash env TransferTransferCount (InscriptionID t)) = 0
        \<and> ws = normalWrites env h (InscriptionID t) (NewPkscript t) (NewWallet t) tick amount)"

section \<open>Example inputs\<close>

definition zeroKey :: "byte list" where
  "zeroKey = replicate 32 0"

definition oneValue :: "byte list" where
  "oneValue = replicate 32 1"

definition fiveValue :: "byte list" where
  "fiveValue = replicate 32 5"

text \<open>A header whose tree holds a committed value at \<open>zeroKey\<close>.\<close>

definition committedHeader :: Header where
  "committedHeader =
     \<lparr>Root = [zeroKey \<mapsto> fiveValue], KV = [zeroKey \<mapsto> fiveValue], Temp = [],
      Height = 7, Hash = ''h7''\<rparr>"

text \<open>A header with one staged write.\<close>

definition stagedHeader :: Header where
  "stagedHeader =
     committedHeader\<lparr>Temp := [\<lparr>Key = zeroKey, OldValue = fiveValue, NewValue = oneValue,
                                OldValueExists = True\<rparr>]\<rparr>"

text \<open>A getter whose \<open>GetBlockHash\<close> fails.\<close>

definition failingGetter :: "64 word \<Rightarrow> error + string" where
  "failingGetter n = Inl GetterError"

text \<open>A blob of two slots, with all its capacity in use.\<close>

definition exampleBlob :: goslice where
  "exampleBlob = \<lparr>elems = replicate 31 0 @ [1] @ replicate 32 171, spare = []\<rparr>"

subsection \<open>An environment for the examples\<close>

text \<open>A stand-in for Keccak-224 in the examples: 28 bytes that begin with \<open>0xff\<close>, followed
  by the input, cut or padded with zeros. It is injective on inputs of at most 27 bytes.\<close>

definition keccak0 :: "byte list \<Rightarrow> byte list" where
  "keccak0 bs = copyInto 28 (255 # bs)"

text \<open>A stand-in for the address decoder in the examples: the bytes of the address, cut or
  padded with zeros to 32 bytes.\<close>

definition decodeBitcoinAddress0 :: "string \<Rightarrow> byte list" where
  "decodeBitcoinAddress0 s = copyInto 32 (bytes s)"

text \<open>\<open>strings.ToLower\<close> on ASCII letters; other bytes are left as they are.\<close>

definition ToLower0 :: "string \<Rightarrow> string" where
  "ToLower0 s =
     map (\<lambda>c. let n = (of_char c :: int)
              in if 65 \<le> n \<and> n \<le> 90 then char_of (n + 32) else c) s"

text \<open>Modelled from the spec: \<open>isPositiveNumber\<close> is not in the sources. It accepts a
  non-empty string of decimal digits (section 4.A, without the dot); the clause on
  ambiguous leading zeros is not modelled.\<close>

definition isPositiveNumber0 :: "string \<Rightarrow> bool \<Rightarrow> bool" where
  "isPositiveNumber0 s doStrip = (s \<noteq> [] \<and> list_all isDigit s)"

text \<open>Modelled from the spec: \<open>isPositiveNumberWithDot\<close> is not in the sources. It accepts
  digits, optionally followed by a dot and digits, with at least one digit on each side of
  the dot (section 4.A); the clause on ambiguous leading zeros is not modelled.\<close>

definition isPositiveNumberWithDot0 :: "string \<Rightarrow> bool \<Rightarrow> bool" where
  "isPositiveNumberWithDot0 s doStrip =
     (let ip = takeWhile (\<lambda>c. c \<noteq> CHR ''.'') s;
          rest = dropWhile (\<lambda>c. c \<noteq> CHR ''.'') s
      in ip \<noteq> [] \<and> list_all isDigit ip
         \<and> (rest = [] \<or> (tl rest \<noteq> [] \<and> list_all isDigit (tl rest))))"

text \<open>Modelled from the spec: \<open>getNumberExtendedTo18Decimals\<close> is not in the sources. It
  multiplies the integer part by \<open>10 ^ 18\<close> and adds the fractional part scaled to 18 decimals;
  it fails when the fractional part has more digits than \<open>decimals\<close>, when the result
  overflows 256 bits or when \<open>decimals\<close> exceeds 18 (section 4.A).\<close>

definition getNumberExtendedTo18Decimals0 :: "string \<Rightarrow> u256 \<Rightarrow> bool \<Rightarrow> u256 option" where
  "getNumberExtendedTo18Decimals0 s decimals doStrip =
     (let ip = takeWhile (\<lambda>c. c \<noteq> CHR ''.'') s;
          fp = drop (length ip + 1) s
      in if decimals > 18 \<or> of_nat (length fp) > decimals then None
         else
           let v = decimalValue ip * 10 ^ 18 + decimalValue fp * 10 ^ (18 - length fp)
           in if v \<ge> 2 ^ 256 then None else Some (word_of_int v))"

text \<open>A stand-in for \<open>padTo32Bytes\<close> in the examples: zeros are appended up to 32 bytes.\<close>

definition padTo32Bytes0 :: "byte list \<Rightarrow> byte list" where
  "padTo32Bytes0 bs = bs @ replicate (32 - length bs) 0"

definition env0 :: Env where
  "env0 = \<lparr>keccak224 = keccak0, decodeBitcoinAddress = decodeBitcoinAddress0,
            getLimit = 18446744073709551615 * 10 ^ 18, ToLower = ToLower0,
            isPositiveNumber = isPositiveNumber0,
            isPositiveNumberWithDot = isPositiveNumberWithDot0,
            getNumberExtendedTo18Decimals = getNumberExtendedTo18Decimals0,
            padTo32Bytes = padTo32Bytes0\<rparr>"

subsection \<open>Records for the examples\<close>

text \<open>An empty header and a getter that succeeds.\<close>

definition h0 :: Header where
  "h0 = NewHeader 0 []"

definition g0 :: "64 word \<Rightarrow> error + string" where
  "g0 n = Inr ''hash''"

text \<open>Deploy of tick \<open>test\<close> with \<open>max\<close> given and \<open>dec = 18\<close>.\<close>

definition deployRec :: "string \<Rightarrow> OrdTransfer" where
  "deployRec maxSupply =
     \<lparr>ID = 1, InscriptionID = ''d1i0'', OldSatpoint = [], NewPkscript = ''5120aa'',
      NewWallet = ''bc1pa'', SentAsFee = False, ContentType = ''text/plain;charset=utf-8'',
      Content = [''p'' \<mapsto> ''brc-20'', ''op'' \<mapsto> ''deploy'', ''tick'' \<mapsto> ''test'',
                 ''max'' \<mapsto> maxSupply, ''dec'' \<mapsto> ''18'']\<rparr>"

text \<open>Mint of \<open>amt\<close> of tick \<open>test\<close> to the holder with the given pkscript and wallet.\<close>

definition mintRec :: "string \<Rightarrow> string \<Rightarrow> string \<Rightarrow> OrdTransfer" where
  "mintRec amt pk wallet =
     \<lparr>ID = 2, InscriptionID = ''m1i0'', OldSatpoint = [], NewPkscript = pk,
      NewWallet = wallet, SentAsFee = False, ContentType = ''text/plain;charset=utf-8'',
      Content = [''p'' \<mapsto> ''brc-20'', ''op'' \<mapsto> ''mint'', ''tick'' \<mapsto> ''test'',
                 ''amt'' \<mapsto> amt]\<rparr>"

text \<open>A transfer inscription of 300 \<open>test\<close> by holder \<open>5120aa\<close> / \<open>bc1pa\<close>.\<close>

definition inscribeRec :: "string \<Rightarrow> OrdTransfer" where
  "inscribeRec inscr =
     \<lparr>ID = 3, InscriptionID = inscr, OldSatpoint = [], NewPkscript = ''5120aa'',
      NewWallet = ''bc1pa'', SentAsFee = False, ContentType = ''text/plain;charset=utf-8'',
      Content = [''p'' \<mapsto> ''brc-20'', ''op'' \<mapsto> ''transfer'', ''tick'' \<mapsto> ''test'',
                 ''amt'' \<mapsto> ''300'']\<rparr>"

text \<open>The spend of that inscription to the holder with the given pkscript and wallet.\<close>

definition spendRec :: "string \<Rightarrow> string \<Rightarrow> string \<Rightarrow> OrdTransfer" where
  "spendRec inscr pk wallet =
     \<lparr>ID = 4, InscriptionID = inscr, OldSatpoint = ''tx0:0:0'', NewPkscript = pk,
      NewWallet = wallet, SentAsFee = False, ContentType = ''text/plain;charset=utf-8'',
      Content = [''p'' \<mapsto> ''brc-20'', ''op'' \<mapsto> ''transfer'', ''tick'' \<mapsto> ''test'',
                 ''amt'' \<mapsto> ''300'']\<rparr>"

subsection \<open>States of the examples\<close>

text \<open>The keys that \<open>GetHash\<close> and \<open>GetEventHash\<close> derive in \<open>env0\<close> for tick \<open>test\<close>, for a
  discriminator of at most 26 bytes and an inscription id of at most 27 bytes.\<close>

definition stateKey0 :: "byte \<Rightarrow> string \<Rightarrow> byte list" where
  "stateKey0 stateID uniqueID = 255 # copyInto 26 (bytes uniqueID) @ [stateID] @ bytes ''test''"

definition eventKey0 :: "byte \<Rightarrow> string \<Rightarrow> byte list" where
  "eventKey0 eventID inscrID = [eventID, 0, 0, 0] @ copyInto 28 (255 # bytes inscrID)"

text \<open>A header right after \<open>Paging\<close>: \<open>Root\<close> and \<open>KV\<close> hold the same map, \<open>Temp\<close> is empty.\<close>

definition pagedHeader :: "(byte list \<rightharpoonup> byte list) \<Rightarrow> 64 word \<Rightarrow> Header" where
  "pagedHeader m n = \<lparr>Root = m, KV = m, Temp = [], Height = n, Hash = []\<rparr>"

text \<open>Block 1: the deploy of \<open>test\<close> with \<open>max = 1000\<close> and \<open>dec = 18\<close>.\<close>

definition deployedRoot :: "byte list \<rightharpoonup> byte list" where
  "deployedRoot =
     [stateKey0 Exists [] \<mapsto> convertIntToByte 0,
      stateKey0 RemainingSupply [] \<mapsto> convertIntToByte (1000 * 10 ^ 18),
      stateKey0 MaxSupply [] \<mapsto> convertIntToByte (1000 * 10 ^ 18),
      stateKey0 LimitPerMint [] \<mapsto> convertIntToByte (1000 * 10 ^ 18),
      stateKey0 Decimals [] \<mapsto> convertIntToByte 18]"

definition deployedHeader :: Header where
  "deployedHeader = pagedHeader deployedRoot 1"

text \<open>Block 2: holder A (pkscript \<open>5120aa\<close>, wallet \<open>bc1pa\<close>) mints 500.\<close>

definition mintedRoot :: "byte list \<rightharpoonup> byte list" where
  "mintedRoot =
     deployedRoot
      (stateKey0 AvailableBalancePkscript ''5120aa'' \<mapsto> convertIntToByte (500 * 10 ^ 18),
       stateKey0 OverallBalancePkscript ''5120aa'' \<mapsto> convertIntToByte (500 * 10 ^ 18),
       stateKey0 AvailableBalance ''bc1pa'' \<mapsto> convertIntToByte (500 * 10 ^ 18),
       stateKey0 OverallBalance ''bc1pa'' \<mapsto> convertIntToByte (500 * 10 ^ 18),
       stateKey0 RemainingSupply [] \<mapsto> convertIntToByte (500 * 10 ^ 18))"

definition mintedHeader :: Header where
  "mintedHeader = pagedHeader mintedRoot 2"

text \<open>Block 3: holder A inscribes two transfers of 300 each, \<open>t1i0\<close> and \<open>t2i0\<close>. Both see the
  committed available balance of 500 and stage 200.\<close>

definition reservedRoot :: "byte list \<rightharpoonup> byte list" where
  "reservedRoot =
     mintedRoot
      (stateKey0 AvailableBalance ''bc1pa'' \<mapsto> convertIntToByte (200 * 10 ^ 18),
       stateKey0 AvailableBalancePkscript ''5120aa'' \<mapsto> convertIntToByte (200 * 10 ^ 18),
       eventKey0 0 ''t1i0'' \<mapsto> copyInto 32 (bytes ''bc1pa''),
       eventKey0 1 ''t1i0'' \<mapsto> copyInto 32 [6, 81, 32, 170],
       eventKey0 4 ''t1i0'' \<mapsto> convertIntToByte 1,
       stateKey0 AvailableBalance ''bc1pa'' \<mapsto> convertIntToByte (200 * 10 ^ 18),
       stateKey0 AvailableBalancePkscript ''5120aa'' \<mapsto> convertIntToByte (200 * 10 ^ 18),
       eventKey0 0 ''t2i0'' \<mapsto> copyInto 32 (bytes ''bc1pa''),
       eventKey0 1 ''t2i0'' \<mapsto> copyInto 32 [6, 81, 32, 170],
       eventKey0 4 ''t2i0'' \<mapsto> convertIntToByte 1)"

definition reservedHeader :: Header where
  "reservedHeader = pagedHeader reservedRoot 3"

text \<open>Block 4: the inscription \<open>t1i0\<close> is sent to holder B (pkscript \<open>5120bb\<close>, wallet
  \<open>bc1pb\<close>).\<close>

definition spentRoot :: "byte list \<rightharpoonup> byte list" where
  "spentRoot =
     reservedRoot
      (stateKey0 OverallBalance ''bc1pa'' \<mapsto> convertIntToByte (200 * 10 ^ 18),
       stateKey0 OverallBalancePkscript ''5120aa'' \<mapsto> convertIntToByte (200 * 10 ^ 18),
       stateKey0 AvailableBalance ''bc1pb'' \<mapsto> convertIntToByte (300 * 10 ^ 18),
       stateKey0 OverallBalance ''bc1pb'' \<mapsto> convertIntToByte (300 * 10 ^ 18),
       stateKey0 AvailableBalancePkscript ''5120bb'' \<mapsto> convertIntToByte (300 * 10 ^ 18),
       stateKey0 OverallBalancePkscript ''5120bb'' \<mapsto> convertIntToByte (300 * 10 ^ 18),
       eventKey0 3 ''t1i0'' \<mapsto> convertIntToByte 1)"

definition spentHeader :: Header where
  "spentHeader = pagedHeader spentRoot 4"

text \<open>The four blocks.\<close>

definition block1 :: "OrdTransfer list" where
  "block1 = [deployRec ''1000'']"

definition block2 :: "OrdTransfer list" where
  "block2 = [mintRec ''500'' ''5120aa'' ''bc1pa'']"

definition block3 :: "OrdTransfer list" where
  "block3 = [inscribeRec ''t1i0'', inscribeRec ''t2i0'']"

definition block4 :: "OrdTransfer list" where
  "block4 = [spendRec ''t1i0'' ''5120bb'' ''bc1pb'']"

text \<open>A batch of two mints, of 500 by holder B and of 700 by holder C.\<close>

definition twoMints :: "OrdTransfer list" where
  "twoMints = [mintRec ''500'' ''5120bb'' ''bc1pb'', mintRec ''700'' ''5120cc'' ''bc1pc'']"

section \<open>Properties of the store\<close>

lemma bindE_simps [simp]:
  "bindE (Inl e) f = Inl e" "bindE (Inr x) f = f x"
  by (simp_all add: bindE_def)

lemma bindE_Inr_iff: "bindE m f = Inr y \<longleftrightarrow> (\<exists>x. m = Inr x \<and> f x = Inr y)"
  by (cases m) simp_all

lemma length_intToBE [simp]: "length (intToBE n v) = n"
  by (induction n arbitrary: v) simp_all

lemma BEToInt_snoc: "BEToInt (xs @ [b]) = BEToInt xs * 256 + uint b"
  by (simp add: BEToInt_def)

lemma BEToInt_intToBE: "0 \<le> v \<Longrightarrow> BEToInt (intToBE n v) = v mod 256 ^ n"
proof (induction n arbitrary: v)
  case 0
  then show ?case by (simp add: BEToInt_def)
next
  case (Suc n)
  have "uint (word_of_int (v mod 256) :: byte) = v mod 256"
    by (simp add: uint_word_of_int take_bit_eq_mod)
  moreover have "0 \<le> v div 256"
    using Suc.prems by simp
  ultimately have "BEToInt (intToBE (Suc n) v) = (v div 256) mod 256 ^ n * 256 + v mod 256"
    by (simp add: BEToInt_snoc Suc.IH)
  also have "\<dots> = v mod 256 ^ Suc n"
    by (simp add: zmod_zmult2_eq)
  finally show ?case .
qed

lemma length_WriteToArray32 [simp]: "length (WriteToArray32 v) = 32"
  by (simp add: WriteToArray32_def)

lemma SetBytes_WriteToArray32 [simp]: "SetBytes (WriteToArray32 v) = v"
proof -
  have "uint v < 256 ^ 32"
    using uint_bounded [of v] by simp
  then show ?thesis
    by (simp add: SetBytes_def WriteToArray32_def BEToInt_intToBE)
qed

lemma foldl_applyElem_fields:
  "Temp (foldl applyElem h es) = Temp h \<and> Height (foldl applyElem h es) = Height h
   \<and> Hash (foldl applyElem h es) = Hash h"
  by (induction es arbitrary: h) (auto simp: applyElem_def)

lemma foldl_applyElem_snoc:
  "Root (foldl applyElem h (es @ [e])) (Key e) = Some (NewValue e)
   \<and> KV (foldl applyElem h (es @ [e])) (Key e) = Some (NewValue e)"
  by (simp add: applyElem_def)

text \<open>
  C5. For a 32-byte key and a 32-byte value, \<open>insert\<close> succeeds and appends one element to
  \<open>Temp\<close>: the key, the committed value (zeros when there is none), the new value and the
  flag that a committed value existed. \<open>Root\<close> and \<open>KV\<close> are unchanged, so a \<open>get\<close> of the
  same key afterwards returns the committed value, not the staged one.
\<close>

theorem insert_stages_write:
  assumes "length key = KeySize" and "length val = ValueSize"
  shows "\<exists>h'. insert_h h key val = Inr h'
          \<and> Temp h' = Temp h @
               [\<lparr>Key = key, OldValue = copyInto ValueSize (bytesOf (Root h key)),
                 NewValue = val, OldValueExists = (Root h key \<noteq> None)\<rparr>]
          \<and> Root h' = Root h \<and> KV h' = KV h
          \<and> get h' key = Inr (Root h key) \<and> get h' key = get h key"
  using assms
  by (auto simp: insert_h_def get_def Let_def copyInto_def len_def bytesOf_def
        ValueSize_def KeySize_def split: option.splits)

theorem insert_stages_write_witness:
  "length zeroKey = KeySize \<and> length oneValue = ValueSize
   \<and> (\<exists>h'. insert_h committedHeader zeroKey oneValue = Inr h'
         \<and> Temp h' = [\<lparr>Key = zeroKey, OldValue = fiveValue, NewValue = oneValue,
                        OldValueExists = True\<rparr>]
         \<and> Root h' = Root committedHeader
         \<and> get h' zeroKey = Inr (Some fiveValue))"
proof -
  have k: "length zeroKey = KeySize" and v: "length oneValue = ValueSize"
    by (simp_all add: zeroKey_def oneValue_def KeySize_def ValueSize_def)
  have c: "copyInto ValueSize fiveValue = fiveValue"
    by (simp add: copyInto_def fiveValue_def ValueSize_def)
  show ?thesis
    using insert_stages_write [OF k v, of committedHeader] k v
    by (auto simp: committedHeader_def bytesOf_def c)
qed

text \<open>
  C3, as the code has it. A failing \<open>GetBlockHash\<close> is met after the staged writes were
  applied: when \<open>Paging\<close> returns an error, every element of \<open>Temp\<close> has been written to
  \<open>KV\<close> and \<open>Root\<close> (the last element's value is the one found under its key), \<open>Temp\<close> is
  empty and \<open>Height\<close> is one more than before; only \<open>Hash\<close> keeps its value.
\<close>

theorem Paging_error_applied:
  assumes "Paging g True h = (Some e, h')"
  shows "KV h' = KV (foldl applyElem h (Temp h)) \<and> Root h' = Root (foldl applyElem h (Temp h))
         \<and> Temp h' = [] \<and> Height h' = Height h + 1 \<and> Hash h' = Hash h
         \<and> (Temp h \<noteq> [] \<longrightarrow>
              Root h' (Key (last (Temp h))) = Some (NewValue (last (Temp h)))
              \<and> KV h' (Key (last (Temp h))) = Some (NewValue (last (Temp h))))"
proof -
  have main: "h' = (foldl applyElem h (Temp h))\<lparr>Temp := [], Height := Height h + 1\<rparr>"
    using assms by (auto simp: Paging_def Let_def foldl_applyElem_fields split: sum.splits)
  have "Temp h \<noteq> [] \<Longrightarrow>
          Root (foldl applyElem h (Temp h)) (Key (last (Temp h))) = Some (NewValue (last (Temp h)))
          \<and> KV (foldl applyElem h (Temp h)) (Key (last (Temp h))) = Some (NewValue (last (Temp h)))"
    using foldl_applyElem_snoc [of h "butlast (Temp h)" "last (Temp h)"] by simp
  with main show ?thesis
    by (simp add: foldl_applyElem_fields)
qed

theorem Paging_error_applied_witness:
  "\<exists>h'. Paging failingGetter True stagedHeader = (Some GetterError, h')
     \<and> Temp stagedHeader \<noteq> []
     \<and> Root h' zeroKey = Some oneValue \<and> KV h' zeroKey = Some oneValue
     \<and> Temp h' = [] \<and> Height h' = 8 \<and> Hash h' = ''h7''"
proof -
  define h' where "h' = snd (Paging failingGetter True stagedHeader)"
  have p: "Paging failingGetter True stagedHeader = (Some GetterError, h')"
    by (simp add: h'_def Paging_def failingGetter_def Let_def)
  have t: "Temp stagedHeader \<noteq> []" and l: "last (Temp stagedHeader) =
      \<lparr>Key = zeroKey, OldValue = fiveValue, NewValue = oneValue, OldValueExists = True\<rparr>"
    and f: "Height stagedHeader = 7" "Hash stagedHeader = ''h7''"
    by (simp_all add: stagedHeader_def committedHeader_def)
  note r = Paging_error_applied [OF p]
  from r t have a: "Root h' (Key (last (Temp stagedHeader))) = Some (NewValue (last (Temp stagedHeader)))
      \<and> KV h' (Key (last (Temp stagedHeader))) = Some (NewValue (last (Temp stagedHeader)))"
    by blast
  from r have b: "Temp h' = [] \<and> Height h' = Height stagedHeader + 1 \<and> Hash h' = Hash stagedHeader"
    by blast
  show ?thesis
    using a b p t by (simp add: l f)
qed

text \<open>
  C3, as the claim states it, fails: with one staged write and a getter that fails, \<open>Paging\<close>
  returns the error and has changed \<open>Root\<close>, \<open>KV\<close>, \<open>Temp\<close> and \<open>Height\<close>.
\<close>

theorem Paging_error_counterexample:
  "fst (Paging failingGetter True stagedHeader) = Some GetterError
   \<and> Root (snd (Paging failingGetter True stagedHeader)) zeroKey \<noteq> Root stagedHeader zeroKey
   \<and> KV (snd (Paging failingGetter True stagedHeader)) zeroKey \<noteq> KV stagedHeader zeroKey
   \<and> Temp (snd (Paging failingGetter True stagedHeader)) \<noteq> Temp stagedHeader
   \<and> Height (snd (Paging failingGetter True stagedHeader)) \<noteq> Height stagedHeader"
  by (simp add: Paging_def failingGetter_def stagedHeader_def committedHeader_def applyElem_def
        oneValue_def fiveValue_def)

text \<open>
  C9, the code at a failing input. A blob of 64 bytes is inserted at \<open>zeroKey\<close> into an
  empty header and the block is paged. The loop of \<open>InsertBytes\<close> writes slot \<open>i\<close> of the
  blob under the stem's last byte plus \<open>i\<close>, so slot 0 is staged under the key that already
  holds the slot count and replaces it at paging. \<open>GetBytes\<close> then reads the first 32
  bytes of the blob as the count (here 1) and returns 32 bytes, not the 64 of the blob.
\<close>

theorem InsertBytes_GetBytes_failing_input:
  "bindE (InsertBytes (NewHeader 0 []) zeroKey exampleBlob)
     (\<lambda>h. GetBytes (snd (Paging failingGetter False h)) zeroKey) = Inr (replicate 31 0 @ [1])
   \<and> bindE (InsertBytes (NewHeader 0 []) zeroKey exampleBlob)
     (\<lambda>h. Inr (map Key (Temp h))) = Inr [zeroKey, zeroKey, replicate 31 0 @ [1]]
   \<and> length (elems exampleBlob) = 64"
  by code_simp

section \<open>The operations stage their writes\<close>

lemma stage_simps [simp]:
  "Root (stage h ws) = Root h" "KV (stage h ws) = KV h" "Temp (stage h ws) = Temp h @ ws"
  "Height (stage h ws) = Height h" "Hash (stage h ws) = Hash h"
  "stage (stage h ws) vs = stage h (ws @ vs)" "stage h [] = h"
  by (simp_all add: stage_def)

lemma staged_stage [simp]: "staged (stage h ws) k v = staged h k v"
  by (simp add: staged_def)

lemma staged_sel [simp]: "Key (staged h k v) = k" "NewValue (staged h k v) = v"
  by (simp_all add: staged_def)

lemma Insert_Inr_iff:
  "Insert h k v = Inr h' \<longleftrightarrow> length k = 32 \<and> length v = 32 \<and> h' = stage h [staged h k v]"
  by (auto simp: Insert_def insert_h_def get_def Let_def copyInto_def len_def bytesOf_def
        ValueSize_def KeySize_def stage_def staged_def split: option.splits)

lemma Get_stage [simp]: "Get (stage h ws) k = Get h k"
  by (simp add: Get_def get_def)

lemma GetValueOrZero_stage [simp]: "GetValueOrZero (stage h ws) k = GetValueOrZero h k"
  by (simp add: GetValueOrZero_def GetUInt256_def get_def)

lemma length_convertIntToByte [simp]: "length (convertIntToByte v) = 32"
  by (simp add: convertIntToByte_def)

lemma GetHash_length: "GetHash env sid uid tick = Inr k \<Longrightarrow> length k = 32"
  by (auto simp: GetHash_def Let_def split: if_splits)

lemma GetTickStatus_Inr:
  "GetTickStatus env tick = Inr (kE, kR, kM, kL, kD) \<longleftrightarrow>
     GetHash env Exists [] tick = Inr kE \<and> GetHash env RemainingSupply [] tick = Inr kR
     \<and> GetHash env MaxSupply [] tick = Inr kM \<and> GetHash env LimitPerMint [] tick = Inr kL
     \<and> GetHash env Decimals [] tick = Inr kD"
  by (auto simp: GetTickStatus_def bindE_Inr_iff)

lemma deployInscribe_Inr:
  assumes "deployInscribe env h inscrID pk addr tick maxSupply decimals limitPerMint = Inr h'"
  shows "\<exists>kE kR kM kL kD. GetTickStatus env tick = Inr (kE, kR, kM, kL, kD)
     \<and> h' = stage h [staged h kE (convertIntToByte 0), staged h kR (convertIntToByte maxSupply),
          staged h kM (convertIntToByte maxSupply), staged h kL (convertIntToByte limitPerMint),
          staged h kD (convertIntToByte decimals)]"
  using assms
  by (auto simp: deployInscribe_def bindE_Inr_iff Insert_Inr_iff)

lemma mintInscribe_Inr:
  assumes "mintInscribe env h inscrID pk addr tick amount = Inr h'"
  shows "\<exists>kAP kOP kAW kOW kE kR kM kL kD a ov.
       GetHash env AvailableBalancePkscript pk tick = Inr kAP
     \<and> GetHash env OverallBalancePkscript pk tick = Inr kOP
     \<and> GetHash env AvailableBalance (str (decodeBitcoinAddress env addr)) tick = Inr kAW
     \<and> GetHash env OverallBalance (str (decodeBitcoinAddress env addr)) tick = Inr kOW
     \<and> GetTickStatus env tick = Inr (kE, kR, kM, kL, kD)
     \<and> GetValueOrZero h kAP = Inr a \<and> GetValueOrZero h kOP = Inr ov
     \<and> h' = stage h [staged h kAP (convertIntToByte (a + amount)),
                      staged h kOP (convertIntToByte (ov + amount)),
                      staged h kAW (convertIntToByte (a + amount)),
                      staged h kOW (convertIntToByte (ov + amount)),
                      staged h kR (convertIntToByte (convertByteToInt (Root h kR) - amount))]"
  using assms
  by (auto simp: mintInscribe_def Let_def bindE_Inr_iff Insert_Inr_iff Get_def get_def KeySize_def
      split: if_splits)


lemma sourceWrites_stage [simp]: "sourceWrites env (stage h ws) i a p = sourceWrites env h i a p"
  by (simp add: sourceWrites_def Let_def)

lemma saveSourceWalletAndPkscript_Inr:
  assumes "saveSourceWalletAndPkscript env h inscrID sourceAddr pkScript = Inr h'"
  shows "h' = stage h (sourceWrites env h inscrID sourceAddr pkScript)
         \<and> (\<forall>e \<in> set (sourceWrites env h inscrID sourceAddr pkScript).
               length (Key e) = 32 \<and> length (NewValue e) = 32)"
  using assms
  by (auto simp: saveSourceWalletAndPkscript_def sourceWrites_def Let_def bindE_Inr_iff
        Insert_Inr_iff split: if_splits)

lemma transferInscribe_Inr:
  assumes "transferInscribe env h inscrID pk addr tick amount avail = Inr h'"
  shows "\<exists>kAW kAP cnt.
       GetHash env AvailableBalance (str (decodeBitcoinAddress env addr)) tick = Inr kAW
     \<and> GetHash env AvailableBalancePkscript pk tick = Inr kAP
     \<and> GetValueOrZero h (GetEventHash env TransferInscribeCount inscrID) = Inr cnt
     \<and> length (GetEventHash env TransferInscribeCount inscrID) = 32
     \<and> (\<forall>e \<in> set (sourceWrites env h inscrID (str (decodeBitcoinAddress env addr)) pk).
               length (Key e) = 32 \<and> length (NewValue e) = 32)
     \<and> h' = stage h ([staged h kAW (convertIntToByte (avail - amount)),
                       staged h kAP (convertIntToByte (avail - amount))]
                      @ sourceWrites env h inscrID (str (decodeBitcoinAddress env addr)) pk
                      @ [staged h (GetEventHash env TransferInscribeCount inscrID)
                           (convertIntToByte (cnt + 1))])"
  using assms
  by (auto simp: transferInscribe_def Let_def bindE_Inr_iff Insert_Inr_iff
        dest!: saveSourceWalletAndPkscript_Inr)

lemma transferTransferSpendToFee_Inr:
  assumes "transferTransferSpendToFee env h inscrID tick amount txId = Inr h'"
  shows "\<exists>sourceAddr sourcePk kAW kAP a cnt.
       getSourceWalletAndPkscript env h inscrID = Inr (sourceAddr, sourcePk)
     \<and> GetHash env AvailableBalance sourceAddr tick = Inr kAW
     \<and> GetHash env AvailableBalancePkscript sourcePk tick = Inr kAP
     \<and> GetValueOrZero h kAW = Inr a
     \<and> GetValueOrZero h (GetEventHash env TransferTransferCount inscrID) = Inr cnt
     \<and> length (GetEventHash env TransferTransferCount inscrID) = 32
     \<and> h' = stage h [staged h kAW (convertIntToByte (a + amount)),
                      staged h kAP (convertIntToByte (a + amount)),
                      staged h (GetEventHash env TransferTransferCount inscrID)
                        (convertIntToByte (cnt + 1))]"
  using assms
  by (auto simp: transferTransferSpendToFee_def Let_def bindE_Inr_iff Insert_Inr_iff)

lemma transferTransferNormal_Inr:
  assumes "transferTransferNormal env h inscrID pk addr tick amount txId = Inr h'"
  shows "\<exists>sourceAddr sourcePk kSW kSP kAW kOW kAP kOP so a ov cnt.
       getSourceWalletAndPkscript env h inscrID = Inr (sourceAddr, sourcePk)
     \<and> GetHash env OverallBalance sourceAddr tick = Inr kSW
     \<and> GetHash env OverallBalancePkscript sourcePk tick = Inr kSP
     \<and> GetHash env AvailableBalance (str (decodeBitcoinAddress env addr)) tick = Inr kAW
     \<and> GetHash env OverallBalance (str (decodeBitcoinAddress env addr)) tick = Inr kOW
     \<and> GetHash env AvailableBalancePkscript pk tick = Inr kAP
     \<and> GetHash env OverallBalancePkscript pk tick = Inr kOP
     \<and> GetValueOrZero h kSW = Inr so \<and> GetValueOrZero h kAW = Inr a
     \<and> GetValueOrZero h kOW = Inr ov
     \<and> GetValueOrZero h (GetEventHash env TransferTransferCount inscrID) = Inr cnt
     \<and> length (GetEventHash env TransferTransferCount inscrID) = 32
     \<and> h' = stage h [staged h kSW (convertIntToByte (so - amount)),
                      staged h kSP (convertIntToByte (so - amount)),
                      staged h kAW (convertIntToByte (a + amount)),
                      staged h kOW (convertIntToByte (ov + amount)),
                      staged h kAP (convertIntToByte (a + amount)),
                      staged h kOP (convertIntToByte (ov + amount)),
                      staged h (GetEventHash env TransferTransferCount inscrID)
                        (convertIntToByte (cnt + 1))]"
  using assms
  by (auto simp: transferTransferNormal_def Let_def bindE_Inr_iff Insert_Inr_iff)

lemma Exec_body_prelude:
  assumes "prelude env t op tick"
  shows "Exec_body env ul h t =
     (if op = ''deploy'' \<and> OldSatpoint t = [] then Exec_deploy env ul h t tick
      else if op = ''mint'' \<and> OldSatpoint t = [] then Exec_mint env ul h t tick
      else if op = ''transfer'' then Exec_transfer env ul h t tick
      else Inr h)"
proof -
  from assms obtain tick0 where
    a: "\<not> (SentAsFee t \<and> OldSatpoint t = [])" "ContentType t \<noteq> []"
       "\<not> (contentTypeOf (ContentType t) \<noteq> ''application/json''
          \<and> contentTypeOf (ContentType t) \<noteq> ''text/plain'')"
       "Content t ''tick'' = Some tick0" "ToLower env tick0 = tick"
       "Content t ''op'' = Some op" "length tick = 4"
    unfolding prelude_def by blast
  show ?thesis
    unfolding Exec_body_def Let_def
    by (simp only: a if_False if_True option.case simp_thms)
qed

lemma Exec_body_no_prelude:
  assumes "\<not> (\<exists>op tick. prelude env t op tick)"
  shows "Exec_body env ul h t = Inr h"
proof -
  have "SentAsFee t \<and> OldSatpoint t = [] \<or> ContentType t = []
     \<or> (contentTypeOf (ContentType t) \<noteq> ''application/json''
          \<and> contentTypeOf (ContentType t) \<noteq> ''text/plain'')
     \<or> Content t ''tick'' = None \<or> Content t ''op'' = None
     \<or> (\<exists>tick0. Content t ''tick'' = Some tick0 \<and> length (ToLower env tick0) \<noteq> 4)"
    using assms unfolding prelude_def by (cases "Content t ''tick''"; cases "Content t ''op''") blast+
  then show ?thesis
    unfolding Exec_body_def Let_def
    by (elim disjE exE conjE) (simp_all only: if_True if_False option.case simp_thms split: if_split option.split)
qed

lemma Get_eq: "length k = 32 \<Longrightarrow> Get h k = Inr (Root h k)"
  by (simp add: Get_def get_def KeySize_def)

lemma GetTickStatus_lengths:
  assumes "GetTickStatus env tick = Inr (kE, kR, kM, kL, kD)"
  shows "length kE = 32" "length kR = 32" "length kM = 32" "length kL = 32" "length kD = 32"
  using assms by (auto simp: GetTickStatus_Inr dest: GetHash_length)

lemma Exec_deploy_cases:
  assumes "Exec_deploy env ul h t tick = Inr h'"
  shows "h' = h \<or>
     (\<exists>kE kR kM kL kD maxSupply decimals limitPerMint.
         GetTickStatus env tick = Inr (kE, kR, kM, kL, kD) \<and> len (Root h kE) = 0
       \<and> maxSupply \<le> ul \<and> maxSupply \<noteq> 0 \<and> decimals \<le> 18
       \<and> deployInscribe env h (InscriptionID t) (NewPkscript t) (NewWallet t) tick
            maxSupply decimals limitPerMint = Inr h')"
proof (cases "Content t ''max''")
  case None
  with assms show ?thesis by (simp add: Exec_deploy_def)
next
  case (Some maxSupplyValue)
  show ?thesis
  proof (cases "GetTickStatus env tick")
    case (Inl e)
    with assms Some show ?thesis by (simp add: Exec_deploy_def)
  next
    case (Inr ks)
    obtain kE kR kM kL kD where ks: "ks = (kE, kR, kM, kL, kD)"
      by (cases ks) auto
    note l = GetTickStatus_lengths [OF Inr [unfolded ks]]
    from assms Some Inr ks l show ?thesis
      by (auto simp: Exec_deploy_def Get_eq not_less Let_def split: option.splits if_splits)
  qed
qed

lemma Exec_mint_cases:
  assumes "Exec_mint env ul h t tick = Inr h'"
  shows "h' = h \<or>
     (\<exists>kE kR kM kL kD amountString amount.
         Content t ''amt'' = Some amountString
       \<and> GetTickStatus env tick = Inr (kE, kR, kM, kL, kD) \<and> len (Root h kE) \<noteq> 0
       \<and> getNumberExtendedTo18Decimals env amountString (convertByteToInt (Root h kD)) False
            = Some amount
       \<and> amount \<le> ul \<and> amount \<noteq> 0 \<and> convertByteToInt (Root h kR) \<noteq> 0
       \<and> amount \<le> convertByteToInt (Root h kL)
       \<and> mintInscribe env h (InscriptionID t) (NewPkscript t) (NewWallet t) tick
            (if amount > convertByteToInt (Root h kR) then convertByteToInt (Root h kR)
             else amount) = Inr h')"
proof (cases "Content t ''amt''")
  case None
  with assms show ?thesis by (simp add: Exec_mint_def)
next
  case (Some amountString)
  show ?thesis
  proof (cases "GetTickStatus env tick")
    case (Inl e)
    with assms Some show ?thesis by (simp add: Exec_mint_def)
  next
    case (Inr ks)
    obtain kE kR kM kL kD where ks: "ks = (kE, kR, kM, kL, kD)"
      by (cases ks) auto
    note l = GetTickStatus_lengths [OF Inr [unfolded ks]]
    from assms Some Inr ks l show ?thesis
      by (auto simp: Exec_mint_def Get_eq not_less Let_def split: option.splits if_splits)
  qed
qed

lemma Exec_transfer_cases:
  assumes "Exec_transfer env ul h t tick = Inr h'"
  shows "h' = h \<or>
     (\<exists>kE kR kM kL kD amountString amount.
         Content t ''amt'' = Some amountString
       \<and> GetTickStatus env tick = Inr (kE, kR, kM, kL, kD) \<and> len (Root h kE) \<noteq> 0
       \<and> getNumberExtendedTo18Decimals env amountString (convertByteToInt (Root h kD)) False
            = Some amount
       \<and> amount \<le> ul \<and> amount \<noteq> 0
       \<and> ((OldSatpoint t = [] \<and>
             (\<exists>key avail. GetHash env AvailableBalancePkscript (NewPkscript t) tick = Inr key
                \<and> GetValueOrZero h key = Inr avail \<and> amount \<le> avail
                \<and> transferInscribe env h (InscriptionID t) (NewPkscript t) (NewWallet t) tick
                     amount avail = Inr h'))
          \<or> (OldSatpoint t \<noteq> [] \<and> isUsedOrInvalid env h (InscriptionID t) = Inr False
              \<and> SentAsFee t
              \<and> transferTransferSpendToFee env h (InscriptionID t) tick amount (ID t) = Inr h')
          \<or> (OldSatpoint t \<noteq> [] \<and> isUsedOrInvalid env h (InscriptionID t) = Inr False
              \<and> \<not> SentAsFee t
              \<and> transferTransferNormal env h (InscriptionID t) (NewPkscript t) (NewWallet t)
                   tick amount (ID t) = Inr h')))"
proof (cases "Content t ''amt''")
  case None
  with assms show ?thesis by (simp add: Exec_transfer_def)
next
  case (Some amountString)
  show ?thesis
  proof (cases "GetTickStatus env tick")
    case (Inl e)
    with assms Some show ?thesis by (simp add: Exec_transfer_def)
  next
    case (Inr ks)
    obtain kE kR kM kL kD where ks: "ks = (kE, kR, kM, kL, kD)"
      by (cases ks) auto
    note l = GetTickStatus_lengths [OF Inr [unfolded ks]]
    from assms Some Inr ks l show ?thesis
      by (auto simp: Exec_transfer_def Get_eq not_less Let_def bindE_Inr_iff
            split: option.splits if_splits)
  qed
qed


section \<open>Evaluating the model on the examples\<close>

text \<open>The continuation of a call is evaluated only after the call has returned.\<close>

lemma bindE_weak_cong: "m = m' \<Longrightarrow> bindE m f = bindE m' f"
  by simp

lemma byte_char_byte: "(of_char (char_of (uint b)) :: byte) = b"
proof -
  have "(of_char (char_of (uint b)) :: int) = uint b mod 256"
    by (rule of_char_of)
  moreover have "uint b mod 256 = uint b"
    using uint_bounded [of b] by simp
  ultimately have "(of_char (char_of (uint b)) :: int) = uint b"
    by simp
  then have "(of_int (of_char (char_of (uint b))) :: byte) = of_int (uint b)"
    by simp
  then show ?thesis
    by (simp only: of_int_of_char word_of_int_uint)
qed

lemma bytes_str [simp]: "bytes (str bs) = bs"
  by (simp add: bytes_def str_def o_def byte_char_byte map_idI del: of_char_of)

lemma length_bytes [simp]: "length (bytes s) = length s"
  by (simp add: bytes_def)

lemma length_str [simp]: "length (str bs) = length bs"
  by (simp add: str_def)

lemma bytes_simps: "bytes [] = []" "bytes (c # cs) = of_char c # bytes cs"
  by (simp_all add: bytes_def)

lemma SetBytes_Nil [simp]: "SetBytes [] = 0"
  by (simp add: SetBytes_def BEToInt_def)

lemma convert_simps [simp]:
  "SetBytes (convertIntToByte v) = v"
  "convertByteToInt (Some (convertIntToByte v)) = v"
  "convertByteToInt None = 0"
  by (simp_all add: convertIntToByte_def convertByteToInt_def bytesOf_def)

lemma replicate_numeral: "replicate (numeral k) x = x # replicate (pred_numeral k) x"
  by (simp add: numeral_eq_Suc)

lemma env0_simps [simp]:
  "keccak224 env0 = keccak0" "decodeBitcoinAddress env0 = decodeBitcoinAddress0"
  "getLimit env0 = 18446744073709551615 * 10 ^ 18" "ToLower env0 = ToLower0"
  "isPositiveNumber env0 = isPositiveNumber0"
  "isPositiveNumberWithDot env0 = isPositiveNumberWithDot0"
  "getNumberExtendedTo18Decimals env0 = getNumberExtendedTo18Decimals0"
  "padTo32Bytes env0 = padTo32Bytes0"
  by (simp_all add: env0_def)

lemmas store_eval = Insert_def insert_h_def get_def Get_def GetValueOrZero_def GetUInt256_def
  NewHeader_def KeySize_def ValueSize_def len_def bytesOf_def copyInto_def
  Paging_def applyElem_def Let_def replicate_numeral

lemmas key_eval = GetHash_def GetTickStatus_def GetEventHash_def keccak0_def bytes_simps
  AvailableBalancePkscript_def AvailableBalance_def OverallBalancePkscript_def
  OverallBalance_def Exists_def RemainingSupply_def MaxSupply_def LimitPerMint_def
  Decimals_def decodeBitcoinAddress0_def TransferInscribeSourceWallet_def
  TransferInscribeSourcePkscript1_def TransferInscribeSourcePkscript2_def
  TransferTransferCount_def TransferInscribeCount_def

lemmas op_eval = deployInscribe_def mintInscribe_def saveSourceWalletAndPkscript_def
  getSourceWalletAndPkscript_def transferInscribe_def isUsedOrInvalid_def
  transferTransferSpendToFee_def transferTransferNormal_def padTo32Bytes0_def
  hexVal_def hexEncodeToString_def hexDigit_def

lemmas exec_eval = Exec_def Exec_body_def Exec_deploy_def Exec_mint_def Exec_transfer_def
  deployDecimals_def deployLimit_def contentTypeOf_def Atoi_def isDigit_def decimalValue_def
  ToLower0_def isPositiveNumber0_def isPositiveNumberWithDot0_def
  getNumberExtendedTo18Decimals0_def

lemmas rec_eval = deployRec_def mintRec_def inscribeRec_def spendRec_def h0_def g0_def
  block1_def block2_def block3_def block4_def

lemmas state_eval = stateKey0_def eventKey0_def pagedHeader_def deployedRoot_def mintedRoot_def
  reservedRoot_def spentRoot_def deployedHeader_def mintedHeader_def reservedHeader_def
  spentHeader_def

lemmas eval = store_eval key_eval op_eval exec_eval rec_eval state_eval

text \<open>The states of the examples are the states that the four blocks reach.\<close>

lemma execBlocks_Cons:
  "execBlocks env g q h (b # bs) =
     bindE (execBlocks env g q h [b]) (\<lambda>h1. execBlocks env g q h1 bs)"
  by (cases "Exec env h b") simp_all

lemma block1_step: "execBlocks env0 g0 False h0 [block1] = Inr deployedHeader"
  by (simp add: eval cong: bindE_weak_cong split del: if_split)

lemma block2_step: "execBlocks env0 g0 False deployedHeader [block2] = Inr mintedHeader"
  by (simp add: eval cong: bindE_weak_cong split del: if_split)

lemma block3_step: "execBlocks env0 g0 False mintedHeader [block3] = Inr reservedHeader"
  by (simp add: eval cong: bindE_weak_cong split del: if_split)

lemma block4_step: "execBlocks env0 g0 False reservedHeader [block4] = Inr spentHeader"
  by (simp add: eval cong: bindE_weak_cong split del: if_split)

lemma blocks_reach:
  "execBlocks env0 g0 False h0 [block1] = Inr deployedHeader"
  "execBlocks env0 g0 False h0 [block1, block2] = Inr mintedHeader"
  "execBlocks env0 g0 False h0 [block1, block2, block3] = Inr reservedHeader"
  "execBlocks env0 g0 False h0 [block1, block2, block3, block4] = Inr spentHeader"
proof -
  show 1: "execBlocks env0 g0 False h0 [block1] = Inr deployedHeader"
    by (rule block1_step)
  show 2: "execBlocks env0 g0 False h0 [block1, block2] = Inr mintedHeader"
    by (subst execBlocks_Cons) (simp only: 1 bindE_simps block2_step)
  have "execBlocks env0 g0 False deployedHeader [block2, block3] = Inr reservedHeader"
    by (subst execBlocks_Cons) (simp only: bindE_simps block2_step block3_step)
  then show 3: "execBlocks env0 g0 False h0 [block1, block2, block3] = Inr reservedHeader"
    by (subst execBlocks_Cons) (simp only: 1 bindE_simps)
  have "execBlocks env0 g0 False mintedHeader [block3, block4] = Inr spentHeader"
    by (subst execBlocks_Cons) (simp only: bindE_simps block3_step block4_step)
  then have "execBlocks env0 g0 False deployedHeader [block2, block3, block4] = Inr spentHeader"
    by (subst execBlocks_Cons) (simp only: bindE_simps block2_step)
  then show "execBlocks env0 g0 False h0 [block1, block2, block3, block4] = Inr spentHeader"
    by (subst execBlocks_Cons) (simp only: 1 bindE_simps)
qed

section \<open>Reads within a batch (C1)\<close>

lemma ops_stage:
  "deployInscribe env h i p a tick m d l = Inr h' \<Longrightarrow> \<exists>ws. h' = stage h ws"
  "mintInscribe env h i p a tick amt = Inr h' \<Longrightarrow> \<exists>ws. h' = stage h ws"
  "transferInscribe env h i p a tick amt av = Inr h' \<Longrightarrow> \<exists>ws. h' = stage h ws"
  "transferTransferSpendToFee env h i tick amt tx = Inr h' \<Longrightarrow> \<exists>ws. h' = stage h ws"
  "transferTransferNormal env h i p a tick amt tx = Inr h' \<Longrightarrow> \<exists>ws. h' = stage h ws"
  using deployInscribe_Inr [of env h i p a tick m d l h']
    mintInscribe_Inr [of env h i p a tick amt h']
    transferInscribe_Inr [of env h i p a tick amt av h']
    transferTransferSpendToFee_Inr [of env h i tick amt tx h']
    transferTransferNormal_Inr [of env h i p a tick amt tx h']
  by blast+

lemma Exec_body_stage:
  assumes "Exec_body env ul h t = Inr h'"
  shows "\<exists>ws. h' = stage h ws"
proof (cases "\<exists>op tick. prelude env t op tick")
  case False
  with assms have "h' = stage h []" by (simp add: Exec_body_no_prelude)
  then show ?thesis by blast
next
  case True
  then obtain op tick where p: "prelude env t op tick" by blast
  have s: "\<exists>ws. h = stage h ws" by (rule exI [of _ "[]"]) simp
  from assms consider
      (same) "h' = h"
    | (deploy) "Exec_deploy env ul h t tick = Inr h'"
    | (mint) "Exec_mint env ul h t tick = Inr h'"
    | (transfer) "Exec_transfer env ul h t tick = Inr h'"
    unfolding Exec_body_prelude [OF p] by (metis Inr_inject)
  then show ?thesis
  proof cases
    case same
    with s show ?thesis by simp
  next
    case deploy
    from Exec_deploy_cases [OF deploy] s show ?thesis
      by (blast dest: ops_stage)
  next
    case mint
    from Exec_mint_cases [OF mint] s show ?thesis
      by (blast dest: ops_stage)
  next
    case transfer
    from Exec_transfer_cases [OF transfer] s show ?thesis
      by (blast dest: ops_stage)
  qed
qed

lemma Exec_loop_stage:
  "Exec_loop env ul h ts = Inr h' \<Longrightarrow> \<exists>ws. h' = stage h ws"
proof (induction ts arbitrary: h)
  case Nil
  then have "h' = stage h []" by simp
  then show ?case by blast
next
  case (Cons t ts)
  then obtain h1 where 1: "Exec_body env ul h t = Inr h1" and 2: "Exec_loop env ul h1 ts = Inr h'"
    by (auto split: sum.splits)
  from Exec_body_stage [OF 1] obtain ws where "h1 = stage h ws" by blast
  moreover from Cons.IH [OF 2] obtain vs where "h' = stage h1 vs" by blast
  ultimately have "h' = stage h (ws @ vs)" by simp
  then show ?case by blast
qed

lemma Exec_loop_append:
  "Exec_loop env ul h (ts @ us) = bindE (Exec_loop env ul h ts) (\<lambda>h1. Exec_loop env ul h1 us)"
  by (induction ts arbitrary: h) (auto split: sum.splits)

lemma Exec_eq_loop: "Exec env h ts = Exec_loop env (getLimit env) h ts"
  by (cases ts) (simp_all add: Exec_def Let_def)

lemma Exec_stage: "Exec env h ts = Inr h' \<Longrightarrow> \<exists>ws. h' = stage h ws"
  by (simp add: Exec_eq_loop Exec_loop_stage)




section \<open>Deploy of a deployed tick (C8)\<close>

lemma GetHash_Inr_other:
  assumes "GetHash env a uid tick = Inr k"
  shows "\<exists>k'. GetHash env b uid tick = Inr k'"
  using assms by (auto simp: GetHash_def Let_def split: if_splits)

lemma GetTickStatus_from_Exists:
  assumes "GetHash env Exists [] tick = Inr kE"
  shows "\<exists>kR kM kL kD. GetTickStatus env tick = Inr (kE, kR, kM, kL, kD)"
  using assms GetHash_Inr_other [OF assms, of RemainingSupply]
    GetHash_Inr_other [OF assms, of MaxSupply] GetHash_Inr_other [OF assms, of LimitPerMint]
    GetHash_Inr_other [OF assms, of Decimals]
  by (auto simp: GetTickStatus_Inr)

lemma Exec_single: "Exec env h [t] = Exec_body env (getLimit env) h t"
  by (simp add: Exec_def Let_def split: sum.splits)

text \<open>A batch of one deploy record for a tick whose \<open>exists\<close> key holds a non-empty
  committed value leaves the state as it is.\<close>

lemma duplicate_deploy_skipped:
  assumes "prelude env t ''deploy'' tick" and "OldSatpoint t = []"
    and "GetHash env Exists [] tick = Inr kE" and "len (Root h kE) \<noteq> 0"
  shows "Exec env h [t] = Inr h"
proof -
  from GetTickStatus_from_Exists [OF assms(3)] obtain kR kM kL kD where
    ks: "GetTickStatus env tick = Inr (kE, kR, kM, kL, kD)" by blast
  have l: "length kE = 32" using assms(3) by (rule GetHash_length)
  have "Exec_deploy env (getLimit env) h t tick = Inr h"
    using ks l assms(4) by (simp add: Exec_deploy_def Get_eq Let_def split: option.splits)
  with assms(1,2) show ?thesis
    by (simp add: Exec_single Exec_body_prelude)
qed

lemma Exec_loop_snoc:
  "Exec_loop env ul h (ts @ [t]) = bindE (Exec_loop env ul h ts) (\<lambda>h1. Exec_body env ul h1 t)"
proof -
  have "Exec_loop env ul h1 [t] = Exec_body env ul h1 t" for h1
    by (simp split: sum.splits)
  then show ?thesis
    by (simp only: Exec_loop_append)
qed

lemma Exec_take_Suc:
  assumes "i < length ts"
  shows "Exec env h (take (Suc i) ts) =
           bindE (Exec env h (take i ts)) (\<lambda>hi. Exec_body env (getLimit env) hi (ts ! i))"
  using assms by (simp add: Exec_eq_loop take_Suc_conv_app_nth Exec_loop_snoc)

text \<open>
  C8, as the code has it. A deploy record, at any position \<open>i\<close> of a batch, for a tick
  whose \<open>exists\<close> key holds a non-empty value committed before the batch (by a \<open>Paging\<close>)
  is skipped: the batch up to and including the record is the batch up to the record, so
  the record stages nothing, whatever its \<open>max\<close>, \<open>lim\<close> and \<open>dec\<close> are.
\<close>

theorem committed_deploy_skipped:
  assumes "i < length ts"
    and "prelude env (ts ! i) ''deploy'' tick" and "OldSatpoint (ts ! i) = []"
    and "GetHash env Exists [] tick = Inr kE" and "len (Root h kE) \<noteq> 0"
  shows "Exec env h (take (Suc i) ts) = Exec env h (take i ts)"
proof (cases "Exec env h (take i ts)")
  case (Inl e)
  then show ?thesis by (simp add: Exec_take_Suc [OF assms(1)])
next
  case (Inr hi)
  from Exec_stage [OF Inr] obtain ws where "hi = stage h ws" by blast
  then have "len (Root hi kE) \<noteq> 0" using assms(5) by simp
  from duplicate_deploy_skipped [OF assms(2,3,4) this]
  have "Exec_body env (getLimit env) hi (ts ! i) = Inr hi"
    by (simp add: Exec_single)
  with Inr show ?thesis by (simp add: Exec_take_Suc [OF assms(1)])
qed

theorem committed_deploy_skipped_witness:
  "execBlocks env0 g0 False h0 [block1] = Inr deployedHeader
   \<and> (1::nat) < length [mintRec ''500'' ''5120aa'' ''bc1pa'', deployRec ''9999'']
   \<and> prelude env0 ([mintRec ''500'' ''5120aa'' ''bc1pa'', deployRec ''9999''] ! 1) ''deploy'' ''test''
   \<and> (\<exists>kE kR kM kL kD. GetTickStatus env0 ''test'' = Inr (kE, kR, kM, kL, kD)
        \<and> len (Root deployedHeader kE) \<noteq> 0
        \<and> Exec env0 deployedHeader (take 2 [mintRec ''500'' ''5120aa'' ''bc1pa'', deployRec ''9999''])
            = Exec env0 deployedHeader (take 1 [mintRec ''500'' ''5120aa'' ''bc1pa'', deployRec ''9999''])
        \<and> bindE (Exec env0 deployedHeader [mintRec ''500'' ''5120aa'' ''bc1pa'', deployRec ''9999''])
              (\<lambda>h. GetValueOrZero (snd (Paging g0 False h)) kM) = Inr (1000 * 10 ^ 18))"
proof -
  let ?ts = "[mintRec ''500'' ''5120aa'' ''bc1pa'', deployRec ''9999'']"
  have i: "(1::nat) < length ?ts" by simp
  have p: "prelude env0 (?ts ! 1) ''deploy'' ''test''"
    by (simp add: prelude_def eval)
  have o: "OldSatpoint (?ts ! 1) = []"
    by (simp add: deployRec_def)
  obtain kE kR kM kL kD where ks: "GetTickStatus env0 ''test'' = Inr (kE, kR, kM, kL, kD)"
    and e: "len (Root deployedHeader kE) \<noteq> 0"
    and m: "bindE (Exec env0 deployedHeader ?ts)
              (\<lambda>h. GetValueOrZero (snd (Paging g0 False h)) kM) = Inr (1000 * 10 ^ 18)"
    by (simp add: eval cong: bindE_weak_cong split del: if_split)
  from ks have k: "GetHash env0 Exists [] ''test'' = Inr kE"
    by (simp add: GetTickStatus_Inr)
  have "Exec env0 deployedHeader (take 2 ?ts) = Exec env0 deployedHeader (take 1 ?ts)"
    by (rule committed_deploy_skipped [OF i p o k e, unfolded Suc_1])
  with ks e m p i blocks_reach(1) show ?thesis
    by blast
qed

text \<open>
  C8, as the claim states it, fails. The deploy with \<open>max = 1000\<close> and a second deploy of the
  same tick with \<open>max = 9999\<close> arrive in one batch. The second deploy reads the committed
  \<open>exists\<close> key, which is still empty, and is applied: the batch stages ten writes, and after
  \<open>Paging\<close> \<open>max_supply\<close> is \<open>9999 * 10 ^ 18\<close>.
\<close>

theorem duplicate_deploy_in_batch_counterexample:
  "bindE (Exec env0 h0 [deployRec ''1000'', deployRec ''9999''])
       (\<lambda>h. Inr (length (Temp h))) = Inr 10
   \<and> bindE (Exec env0 h0 [deployRec ''1000'', deployRec ''9999''])
       (\<lambda>h. bindE (GetHash env0 MaxSupply [] ''test'')
          (\<lambda>kM. GetValueOrZero (snd (Paging g0 False h)) kM)) = Inr (9999 * 10 ^ 18)"
  by (simp add: eval cong: bindE_weak_cong split del: if_split)

section \<open>The amount credited by a mint (C4)\<close>

text \<open>A batch of one mint record: the record is skipped or is \<open>mintInscribe\<close> with the
  amount clamped to the committed remaining supply.\<close>

lemma mint_credit_bounded:
  assumes "prelude env t ''mint'' tick" and "OldSatpoint t = []"
    and "GetTickStatus env tick = Inr (kE, kR, kM, kL, kD)" and "len (Root h kE) \<noteq> 0"
    and "Content t ''amt'' = Some s" and "isPositiveNumberWithDot env s False"
    and "getNumberExtendedTo18Decimals env s (convertByteToInt (Root h kD)) False = Some amount"
    and "amount \<le> getLimit env" and "amount \<noteq> 0"
    and "remaining = convertByteToInt (Root h kR)" and "limit = convertByteToInt (Root h kL)"
    and "credited = (if amount > remaining then remaining else amount)"
  shows "Exec env h [t] =
           (if remaining = 0 \<or> amount > limit then Inr h
            else mintInscribe env h (InscriptionID t) (NewPkscript t) (NewWallet t) tick credited)
         \<and> (if remaining = 0 \<or> amount > limit then True
             else credited \<le> limit \<and> credited \<le> remaining \<and> credited \<noteq> 0
                  \<and> (if amount > remaining then credited = remaining \<and> remaining - credited = 0
                      else credited = amount)
                  \<and> (\<forall>h'. Exec env h [t] = Inr h' \<longrightarrow>
                        (\<exists>kAP kOP kAW kOW a ov.
                           GetHash env AvailableBalancePkscript (NewPkscript t) tick = Inr kAP
                         \<and> GetHash env OverallBalancePkscript (NewPkscript t) tick = Inr kOP
                         \<and> GetHash env AvailableBalance
                               (str (decodeBitcoinAddress env (NewWallet t))) tick = Inr kAW
                         \<and> GetHash env OverallBalance
                               (str (decodeBitcoinAddress env (NewWallet t))) tick = Inr kOW
                         \<and> GetValueOrZero h kAP = Inr a \<and> GetValueOrZero h kOP = Inr ov
                         \<and> h' = stage h
                              [staged h kAP (convertIntToByte (a + credited)),
                               staged h kOP (convertIntToByte (ov + credited)),
                               staged h kAW (convertIntToByte (a + credited)),
                               staged h kOW (convertIntToByte (ov + credited)),
                               staged h kR (convertIntToByte (remaining - credited))])))"
proof -
  note l = GetTickStatus_lengths [OF assms(3)]
  have e: "Exec env h [t] = Exec_mint env (getLimit env) h t tick"
    using assms(1,2) by (simp add: Exec_single Exec_body_prelude)
  have m: "Exec_mint env (getLimit env) h t tick =
           (if remaining = 0 \<or> amount > limit then Inr h
            else mintInscribe env h (InscriptionID t) (NewPkscript t) (NewWallet t) tick credited)"
    using assms(3-12) l by (auto simp: Exec_mint_def Get_eq Let_def not_less)
  show ?thesis
  proof (cases "remaining = 0 \<or> amount > limit")
    case True
    with e m show ?thesis by simp
  next
    case False
    have b: "credited \<le> limit \<and> credited \<le> remaining \<and> credited \<noteq> 0
         \<and> (if amount > remaining then credited = remaining \<and> remaining - credited = 0
              else credited = amount)"
      using False assms(9,12) by (auto simp: not_less)
    have w: "\<forall>h'. Exec env h [t] = Inr h' \<longrightarrow>
                        (\<exists>kAP kOP kAW kOW a ov.
                           GetHash env AvailableBalancePkscript (NewPkscript t) tick = Inr kAP
                         \<and> GetHash env OverallBalancePkscript (NewPkscript t) tick = Inr kOP
                         \<and> GetHash env AvailableBalance
                               (str (decodeBitcoinAddress env (NewWallet t))) tick = Inr kAW
                         \<and> GetHash env OverallBalance
                               (str (decodeBitcoinAddress env (NewWallet t))) tick = Inr kOW
                         \<and> GetValueOrZero h kAP = Inr a \<and> GetValueOrZero h kOP = Inr ov
                         \<and> h' = stage h
                              [staged h kAP (convertIntToByte (a + credited)),
                               staged h kOP (convertIntToByte (ov + credited)),
                               staged h kAW (convertIntToByte (a + credited)),
                               staged h kOW (convertIntToByte (ov + credited)),
                               staged h kR (convertIntToByte (remaining - credited))])"
    proof (intro allI impI)
      fix h' assume "Exec env h [t] = Inr h'"
      with e m False have
        "mintInscribe env h (InscriptionID t) (NewPkscript t) (NewWallet t) tick credited = Inr h'"
        by simp
      from mintInscribe_Inr [OF this] assms(3,10)
      show "\<exists>kAP kOP kAW kOW a ov.
                           GetHash env AvailableBalancePkscript (NewPkscript t) tick = Inr kAP
                         \<and> GetHash env OverallBalancePkscript (NewPkscript t) tick = Inr kOP
                         \<and> GetHash env AvailableBalance
                               (str (decodeBitcoinAddress env (NewWallet t))) tick = Inr kAW
                         \<and> GetHash env OverallBalance
                               (str (decodeBitcoinAddress env (NewWallet t))) tick = Inr kOW
                         \<and> GetValueOrZero h kAP = Inr a \<and> GetValueOrZero h kOP = Inr ov
                         \<and> h' = stage h
                              [staged h kAP (convertIntToByte (a + credited)),
                               staged h kOP (convertIntToByte (ov + credited)),
                               staged h kAW (convertIntToByte (a + credited)),
                               staged h kOW (convertIntToByte (ov + credited)),
                               staged h kR (convertIntToByte (remaining - credited))]"
        by auto
    qed
    from False e m b w show ?thesis by simp
  qed
qed

text \<open>
  C4, as the code has it. A mint record at any position \<open>i\<close> of a batch, on a deployed tick,
  whose amount parses to a non-zero value within the upper limit. \<open>remaining\<close> and \<open>limit\<close>
  are the remaining supply and the limit per mint committed before the batch (by the last
  \<open>Paging\<close>); mints earlier in the batch do not lower \<open>remaining\<close>. When \<open>remaining\<close> is zero or
  the amount exceeds \<open>limit\<close> the record is skipped: the batch up to and including the record
  is the batch up to the record. Otherwise the record is \<open>mintInscribe\<close> with the credited
  amount, the amount clamped to \<open>remaining\<close>: it is at most \<open>limit\<close> and at most \<open>remaining\<close>,
  and when the amount exceeds \<open>remaining\<close> it is \<open>remaining\<close> and the remaining supply staged
  is zero. The writes staged are the committed balances of the minter raised by the credited
  amount and \<open>remaining\<close> lowered by it.
\<close>

theorem mint_credit_bounded_in_batch:
  assumes "i < length ts"
    and "prelude env (ts ! i) ''mint'' tick" and "OldSatpoint (ts ! i) = []"
    and "GetTickStatus env tick = Inr (kE, kR, kM, kL, kD)" and "len (Root h kE) \<noteq> 0"
    and "Content (ts ! i) ''amt'' = Some s" and "isPositiveNumberWithDot env s False"
    and "getNumberExtendedTo18Decimals env s (convertByteToInt (Root h kD)) False = Some amount"
    and "amount \<le> getLimit env" and "amount \<noteq> 0"
    and "remaining = convertByteToInt (Root h kR)" and "limit = convertByteToInt (Root h kL)"
    and "credited = (if amount > remaining then remaining else amount)"
  shows "Exec env h (take (Suc i) ts) =
           bindE (Exec env h (take i ts))
             (\<lambda>hi. if remaining = 0 \<or> amount > limit then Inr hi
                   else mintInscribe env hi (InscriptionID (ts ! i)) (NewPkscript (ts ! i))
                          (NewWallet (ts ! i)) tick credited)
         \<and> (if remaining = 0 \<or> amount > limit then True
             else credited \<le> limit \<and> credited \<le> remaining \<and> credited \<noteq> 0
                  \<and> (if amount > remaining then credited = remaining \<and> remaining - credited = 0
                      else credited = amount)
                  \<and> (\<forall>hi hj. Exec env h (take i ts) = Inr hi
                         \<and> Exec env h (take (Suc i) ts) = Inr hj \<longrightarrow>
                        (\<exists>kAP kOP kAW kOW a ov.
                           GetHash env AvailableBalancePkscript (NewPkscript (ts ! i)) tick = Inr kAP
                         \<and> GetHash env OverallBalancePkscript (NewPkscript (ts ! i)) tick = Inr kOP
                         \<and> GetHash env AvailableBalance
                               (str (decodeBitcoinAddress env (NewWallet (ts ! i)))) tick = Inr kAW
                         \<and> GetHash env OverallBalance
                               (str (decodeBitcoinAddress env (NewWallet (ts ! i)))) tick = Inr kOW
                         \<and> GetValueOrZero h kAP = Inr a \<and> GetValueOrZero h kOP = Inr ov
                         \<and> hj = stage hi
                              [staged h kAP (convertIntToByte (a + credited)),
                               staged h kOP (convertIntToByte (ov + credited)),
                               staged h kAW (convertIntToByte (a + credited)),
                               staged h kOW (convertIntToByte (ov + credited)),
                               staged h kR (convertIntToByte (remaining - credited))])))"
proof -
  have step: "Exec_body env (getLimit env) hi (ts ! i) =
           (if remaining = 0 \<or> amount > limit then Inr hi
            else mintInscribe env hi (InscriptionID (ts ! i)) (NewPkscript (ts ! i))
                          (NewWallet (ts ! i)) tick credited)"
    and wr: "\<not> (remaining = 0 \<or> amount > limit) \<Longrightarrow>
          Exec_body env (getLimit env) hi (ts ! i) = Inr hj \<Longrightarrow>
                        (\<exists>kAP kOP kAW kOW a ov.
                           GetHash env AvailableBalancePkscript (NewPkscript (ts ! i)) tick = Inr kAP
                         \<and> GetHash env OverallBalancePkscript (NewPkscript (ts ! i)) tick = Inr kOP
                         \<and> GetHash env AvailableBalance
                               (str (decodeBitcoinAddress env (NewWallet (ts ! i)))) tick = Inr kAW
                         \<and> GetHash env OverallBalance
                               (str (decodeBitcoinAddress env (NewWallet (ts ! i)))) tick = Inr kOW
                         \<and> GetValueOrZero h kAP = Inr a \<and> GetValueOrZero h kOP = Inr ov
                         \<and> hj = stage hi
                              [staged h kAP (convertIntToByte (a + credited)),
                               staged h kOP (convertIntToByte (ov + credited)),
                               staged h kAW (convertIntToByte (a + credited)),
                               staged h kOW (convertIntToByte (ov + credited)),
                               staged h kR (convertIntToByte (remaining - credited))])"
    if "Exec env h (take i ts) = Inr hi" for hi hj
  proof -
    from Exec_stage [OF that] obtain ws where hi: "hi = stage h ws" by blast
    have a: "len (Root hi kE) \<noteq> 0"
      "getNumberExtendedTo18Decimals env s (convertByteToInt (Root hi kD)) False = Some amount"
      "remaining = convertByteToInt (Root hi kR)" "limit = convertByteToInt (Root hi kL)"
      using assms(5,8,11,12) hi by simp_all
    note m = mint_credit_bounded [OF assms(2,3,4) a(1) assms(6,7) a(2) assms(9,10) a(3,4) assms(13),
        unfolded Exec_single]
    from m show "Exec_body env (getLimit env) hi (ts ! i) =
           (if remaining = 0 \<or> amount > limit then Inr hi
            else mintInscribe env hi (InscriptionID (ts ! i)) (NewPkscript (ts ! i))
                          (NewWallet (ts ! i)) tick credited)"
      by blast
    assume n: "\<not> (remaining = 0 \<or> amount > limit)"
      and e: "Exec_body env (getLimit env) hi (ts ! i) = Inr hj"
    from m n e hi show "\<exists>kAP kOP kAW kOW a ov.
                           GetHash env AvailableBalancePkscript (NewPkscript (ts ! i)) tick = Inr kAP
                         \<and> GetHash env OverallBalancePkscript (NewPkscript (ts ! i)) tick = Inr kOP
                         \<and> GetHash env AvailableBalance
                               (str (decodeBitcoinAddress env (NewWallet (ts ! i)))) tick = Inr kAW
                         \<and> GetHash env OverallBalance
                               (str (decodeBitcoinAddress env (NewWallet (ts ! i)))) tick = Inr kOW
                         \<and> GetValueOrZero h kAP = Inr a \<and> GetValueOrZero h kOP = Inr ov
                         \<and> hj = stage hi
                              [staged h kAP (convertIntToByte (a + credited)),
                               staged h kOP (convertIntToByte (ov + credited)),
                               staged h kAW (convertIntToByte (a + credited)),
                               staged h kOW (convertIntToByte (ov + credited)),
                               staged h kR (convertIntToByte (remaining - credited))]"
      by simp
  qed
  have 1: "Exec env h (take (Suc i) ts) =
           bindE (Exec env h (take i ts))
             (\<lambda>hi. if remaining = 0 \<or> amount > limit then Inr hi
                   else mintInscribe env hi (InscriptionID (ts ! i)) (NewPkscript (ts ! i))
                          (NewWallet (ts ! i)) tick credited)"
    by (cases "Exec env h (take i ts)") (simp_all add: Exec_take_Suc [OF assms(1)] step)
  show ?thesis
  proof (cases "remaining = 0 \<or> amount > limit")
    case True
    with 1 show ?thesis by simp
  next
    case False
    have b: "credited \<le> limit \<and> credited \<le> remaining \<and> credited \<noteq> 0
         \<and> (if amount > remaining then credited = remaining \<and> remaining - credited = 0
              else credited = amount)"
      using False assms(10,13) by (auto simp: not_less)
    have w: "\<forall>hi hj. Exec env h (take i ts) = Inr hi
                         \<and> Exec env h (take (Suc i) ts) = Inr hj \<longrightarrow>
                        (\<exists>kAP kOP kAW kOW a ov.
                           GetHash env AvailableBalancePkscript (NewPkscript (ts ! i)) tick = Inr kAP
                         \<and> GetHash env OverallBalancePkscript (NewPkscript (ts ! i)) tick = Inr kOP
                         \<and> GetHash env AvailableBalance
                               (str (decodeBitcoinAddress env (NewWallet (ts ! i)))) tick = Inr kAW
                         \<and> GetHash env OverallBalance
                               (str (decodeBitcoinAddress env (NewWallet (ts ! i)))) tick = Inr kOW
                         \<and> GetValueOrZero h kAP = Inr a \<and> GetValueOrZero h kOP = Inr ov
                         \<and> hj = stage hi
                              [staged h kAP (convertIntToByte (a + credited)),
                               staged h kOP (convertIntToByte (ov + credited)),
                               staged h kAW (convertIntToByte (a + credited)),
                               staged h kOW (convertIntToByte (ov + credited)),
                               staged h kR (convertIntToByte (remaining - credited))])"
    proof (intro allI impI, elim conjE)
      fix hi hj
      assume p: "Exec env h (take i ts) = Inr hi" and q: "Exec env h (take (Suc i) ts) = Inr hj"
      from p q have "Exec_body env (getLimit env) hi (ts ! i) = Inr hj"
        by (simp add: Exec_take_Suc [OF assms(1)])
      from wr [OF p False this] show "\<exists>kAP kOP kAW kOW a ov.
                           GetHash env AvailableBalancePkscript (NewPkscript (ts ! i)) tick = Inr kAP
                         \<and> GetHash env OverallBalancePkscript (NewPkscript (ts ! i)) tick = Inr kOP
                         \<and> GetHash env AvailableBalance
                               (str (decodeBitcoinAddress env (NewWallet (ts ! i)))) tick = Inr kAW
                         \<and> GetHash env OverallBalance
                               (str (decodeBitcoinAddress env (NewWallet (ts ! i)))) tick = Inr kOW
                         \<and> GetValueOrZero h kAP = Inr a \<and> GetValueOrZero h kOP = Inr ov
                         \<and> hj = stage hi
                              [staged h kAP (convertIntToByte (a + credited)),
                               staged h kOP (convertIntToByte (ov + credited)),
                               staged h kAW (convertIntToByte (a + credited)),
                               staged h kOW (convertIntToByte (ov + credited)),
                               staged h kR (convertIntToByte (remaining - credited))]" .
    qed
    from 1 b w show ?thesis unfolding if_not_P [OF False] by blast
  qed
qed

theorem mint_credit_bounded_in_batch_witness:
  "\<exists>kE kR kM kL kD.
      execBlocks env0 g0 False h0 [block1, block2] = Inr mintedHeader
    \<and> (1::nat) < length twoMints
    \<and> GetTickStatus env0 ''test'' = Inr (kE, kR, kM, kL, kD)
    \<and> convertByteToInt (Root mintedHeader kR) = 500 * 10 ^ 18
    \<and> convertByteToInt (Root mintedHeader kL) = 1000 * 10 ^ 18
    \<and> getNumberExtendedTo18Decimals env0 ''700'' (convertByteToInt (Root mintedHeader kD)) False
         = Some (700 * 10 ^ 18)
    \<and> Exec env0 mintedHeader (take 2 twoMints)
         = bindE (Exec env0 mintedHeader (take 1 twoMints))
             (\<lambda>hi. mintInscribe env0 hi ''m1i0'' ''5120cc'' ''bc1pc'' ''test'' (500 * 10 ^ 18))
    \<and> (\<exists>hi hj. Exec env0 mintedHeader (take 1 twoMints) = Inr hi
           \<and> Exec env0 mintedHeader (take 2 twoMints) = Inr hj
           \<and> Temp hj = Temp hi @ drop 5 (Temp hj)
           \<and> NewValue (last (Temp hj)) = convertIntToByte 0 \<and> Key (last (Temp hj)) = kR)"
proof -
  have i: "(1::nat) < length twoMints" by (simp add: twoMints_def)
  have p: "prelude env0 (twoMints ! 1) ''mint'' ''test''"
    by (simp add: prelude_def twoMints_def eval)
  have o: "OldSatpoint (twoMints ! 1) = []"
    and c: "Content (twoMints ! 1) ''amt'' = Some ''700''"
    and f: "InscriptionID (twoMints ! 1) = ''m1i0''" "NewPkscript (twoMints ! 1) = ''5120cc''"
       "NewWallet (twoMints ! 1) = ''bc1pc''"
    by (simp_all add: twoMints_def mintRec_def)
  have pos: "isPositiveNumberWithDot env0 ''700'' False"
    by (simp add: eval)
  obtain kE kR kM kL kD where ks: "GetTickStatus env0 ''test'' = Inr (kE, kR, kM, kL, kD)"
    and ex: "len (Root mintedHeader kE) \<noteq> 0"
    and r: "convertByteToInt (Root mintedHeader kR) = 500 * 10 ^ 18"
    and l: "convertByteToInt (Root mintedHeader kL) = 1000 * 10 ^ 18"
    and a: "getNumberExtendedTo18Decimals env0 ''700'' (convertByteToInt (Root mintedHeader kD)) False
         = Some (700 * 10 ^ 18)"
    by (simp add: eval cong: bindE_weak_cong split del: if_split)
  have le: "(700 * 10 ^ 18 :: u256) \<le> getLimit env0" "(700 * 10 ^ 18 :: u256) \<noteq> 0"
    by simp_all
  obtain hi hj where hi: "Exec env0 mintedHeader (take 1 twoMints) = Inr hi"
    and hj: "Exec env0 mintedHeader (take 2 twoMints) = Inr hj" and n: "length (Temp hi) = 5"
    by (simp add: twoMints_def eval cong: bindE_weak_cong split del: if_split)
  note A = mint_credit_bounded_in_batch [OF i p o ks ex c pos a le refl refl refl, unfolded Suc_1 f r l]
  from A have A1: "Exec env0 mintedHeader (take 2 twoMints)
         = bindE (Exec env0 mintedHeader (take 1 twoMints))
             (\<lambda>hi. mintInscribe env0 hi ''m1i0'' ''5120cc'' ''bc1pc'' ''test'' (500 * 10 ^ 18))"
    by simp
  from A hi hj have "\<exists>ws. hj = stage hi ws \<and> ws \<noteq> [] \<and> NewValue (last ws) = convertIntToByte 0
      \<and> Key (last ws) = kR"
    by auto
  then have A2: "Temp hj = Temp hi @ drop 5 (Temp hj)
           \<and> NewValue (last (Temp hj)) = convertIntToByte 0 \<and> Key (last (Temp hj)) = kR"
    using n by auto
  from ks r l a A1 hi hj A2 i blocks_reach(2) show ?thesis by blast
qed

text \<open>
  C4, as the claim states it, fails. With 500 of the supply of 1000 left, one batch holds
  two mints of 500, by holders B and C. Both read the committed remaining supply of 500:
  both are credited 500 and both stage a remaining supply of zero, so the second mint is
  credited 500 although the first has used the supply up, and is not skipped.
\<close>

theorem mint_exhausted_supply_counterexample:
  "GetValueOrZero mintedHeader (stateKey0 RemainingSupply []) = Inr (500 * 10 ^ 18)
   \<and> bindE (Exec env0 mintedHeader
             [mintRec ''500'' ''5120bb'' ''bc1pb'', mintRec ''500'' ''5120cc'' ''bc1pc''])
       (\<lambda>h. Inr (map (\<lambda>e. (Key e, NewValue e)) (Temp h)))
     = Inr [(stateKey0 AvailableBalancePkscript ''5120bb'', convertIntToByte (500 * 10 ^ 18)),
            (stateKey0 OverallBalancePkscript ''5120bb'', convertIntToByte (500 * 10 ^ 18)),
            (stateKey0 AvailableBalance ''bc1pb'', convertIntToByte (500 * 10 ^ 18)),
            (stateKey0 OverallBalance ''bc1pb'', convertIntToByte (500 * 10 ^ 18)),
            (stateKey0 RemainingSupply [], convertIntToByte 0),
            (stateKey0 AvailableBalancePkscript ''5120cc'', convertIntToByte (500 * 10 ^ 18)),
            (stateKey0 OverallBalancePkscript ''5120cc'', convertIntToByte (500 * 10 ^ 18)),
            (stateKey0 AvailableBalance ''bc1pc'', convertIntToByte (500 * 10 ^ 18)),
            (stateKey0 OverallBalance ''bc1pc'', convertIntToByte (500 * 10 ^ 18)),
            (stateKey0 RemainingSupply [], convertIntToByte 0)]"
  by (simp add: eval cong: bindE_weak_cong split del: if_split)

section \<open>The writes of a record\<close>











lemma u256At_stage [simp]: "u256At (stage h ws) k = u256At h k"
  by (simp add: u256At_def)

lemma sourceOf_stage [simp]: "sourceOf env (stage h ws) i = sourceOf env h i"
  by (simp add: sourceOf_def)

lemma writes_stage [simp]:
  "deployWrites env (stage h ws) tick m d l = deployWrites env h tick m d l"
  "mintWrites env (stage h ws) pk addr tick c = mintWrites env h pk addr tick c"
  "inscribeWrites env (stage h ws) i pk addr tick a = inscribeWrites env h i pk addr tick a"
  "feeWrites env (stage h ws) i tick a = feeWrites env h i tick a"
  "normalWrites env (stage h ws) i pk addr tick a = normalWrites env h i pk addr tick a"
  by (simp_all add: deployWrites_def mintWrites_def inscribeWrites_def feeWrites_def
        normalWrites_def)

lemma recordWrites_stage [simp]: "recordWrites env (stage h ws) t vs = recordWrites env h t vs"
  by (simp add: recordWrites_def)






section \<open>The two keyings of a balance (C7)\<close>




section \<open>Subtractions on balances and on the remaining supply (C6)\<close>




end
